theory Spec2Isabelle
  imports Complex_Main "HOL-Library.Word"
begin

section \<open>Strings and numbers of the source language\<close>

text \<open>
  The program is one JavaScript module, \<^verbatim>\<open>netlify/functions/carousel.js\<close>.
  A JavaScript string is a sequence of 16-bit code units and \<^verbatim>\<open>s.length\<close> counts
  code units, so a string is a list of 16-bit words here. String literals of the source
  are ASCII and are written with \<open>ascii\<close>. Numbers of the source are modelled by exact
  rationals: the rounding of IEEE doubles, infinities and NaN are outside the model, except
  where a NaN is written out as \<open>None\<close>.
\<close>

type_synonym jschar = "16 word"
type_synonym jsstring = "jschar list"
type_synonym bytes = "8 word list"

definition ascii :: "string \<Rightarrow> jsstring" where
  "ascii s = map of_char s"

text \<open>
  \<^verbatim>\<open>String.prototype.trim\<close> removes the WhiteSpace and LineTerminator code points of
  ECMAScript from both ends; all of them are single code units.
\<close>

definition isWhiteSpace :: "jschar \<Rightarrow> bool" where
  "isWhiteSpace c \<longleftrightarrow>
     c \<in> set [0x09, 0x0A, 0x0B, 0x0C, 0x0D, 0x20, 0xA0, 0x1680, 0x2028, 0x2029,
               0x202F, 0x205F, 0x3000, 0xFEFF]
     \<or> (0x2000 \<le> c \<and> c \<le> 0x200A)"

definition trim :: "jsstring \<Rightarrow> jsstring" where
  "trim s = rev (dropWhile isWhiteSpace (rev (dropWhile isWhiteSpace s)))"

text \<open>\<^verbatim>\<open>s.split(sep)\<close> for a one-character separator: the empty string gives one empty word.\<close>

fun split_on :: "'a \<Rightarrow> 'a list \<Rightarrow> 'a list list" where
  "split_on sep [] = [[]]"
| "split_on sep (c # cs) =
     (if c = sep then [] # split_on sep cs
      else (case split_on sep cs of w # ws \<Rightarrow> (c # w) # ws | [] \<Rightarrow> [[c]]))"

text \<open>Decimal text of a non-negative integer, as a template literal prints it.\<close>

fun decimal :: "nat \<Rightarrow> jsstring" where
  "decimal n =
     (if n < 10 then [of_nat (48 + n)] else decimal (n div 10) @ [of_nat (48 + n mod 10)])"

declare decimal.simps [simp del]

section \<open>Text wrapper: \<^verbatim>\<open>wrapTextIntoLines\<close> (lines 105-147)\<close>

definition charWidthMultipliers :: "(jsstring \<times> rat) list" where
  "charWidthMultipliers =
     [(ascii ''Impact'', 65 / 100), (ascii ''Arial Black'', 65 / 100),
      (ascii ''Bebas Neue'', 55 / 100), (ascii ''Arial'', 55 / 100),
      (ascii ''Helvetica'', 55 / 100), (ascii ''Futura'', 50 / 100),
      (ascii ''Georgia'', 55 / 100), (ascii ''Times'', 50 / 100),
      (ascii ''default'', 55 / 100)]"

text \<open>
  \<^verbatim>\<open>charWidthMultipliers[fontFamily] || charWidthMultipliers['default']\<close>, for a family
  name that is one of the table's own keys or no property of the object at all.
\<close>

definition multiplierFor :: "jsstring \<Rightarrow> rat" where
  "multiplierFor fontFamily =
     (case map_of charWidthMultipliers fontFamily of
        Some m \<Rightarrow> if m \<noteq> 0 then m else 55 / 100
      | None \<Rightarrow> 55 / 100)"

text \<open>
  The body of the \<^verbatim>\<open>for (const word of words)\<close> loop (lines 131-139); the state is
  \<^verbatim>\<open>lines\<close> and \<^verbatim>\<open>currentLine\<close>. A string is truthy when it is not empty.
\<close>

definition wrapStep :: "rat \<Rightarrow> rat \<Rightarrow> rat \<Rightarrow> jsstring list \<times> jsstring \<Rightarrow> jsstring
                        \<Rightarrow> jsstring list \<times> jsstring" where
  "wrapStep maxWidth fontSize multiplier state word =
     (case state of (lines, currentLine) \<Rightarrow>
        let testLine = (if currentLine \<noteq> [] then currentLine @ ascii '' '' @ word else word);
            estimatedWidth = of_nat (length testLine) * fontSize * multiplier
        in if estimatedWidth > maxWidth \<and> currentLine \<noteq> []
           then (lines @ [currentLine], word)
           else (lines, testLine))"

text \<open>The loop over the words, from any state.\<close>

definition wrapLoop :: "rat \<Rightarrow> rat \<Rightarrow> rat \<Rightarrow> jsstring list \<times> jsstring \<Rightarrow> jsstring list
                        \<Rightarrow> jsstring list \<times> jsstring" where
  "wrapLoop maxWidth fontSize multiplier state words =
     foldl (wrapStep maxWidth fontSize multiplier) state words"

text \<open>The loop from the empty state, followed by the final push of lines 142-144.\<close>

definition wrapWords :: "rat \<Rightarrow> rat \<Rightarrow> rat \<Rightarrow> jsstring list \<Rightarrow> jsstring list" where
  "wrapWords maxWidth fontSize multiplier words =
     (case wrapLoop maxWidth fontSize multiplier ([], []) words of
        (lines, currentLine) \<Rightarrow> if currentLine \<noteq> [] then lines @ [currentLine] else lines)"

definition wrapTextIntoLines :: "jsstring \<Rightarrow> rat \<Rightarrow> rat \<Rightarrow> jsstring \<Rightarrow> jsstring list" where
  "wrapTextIntoLines text maxWidth fontSize fontFamily =
     (if text = [] \<or> length (trim text) = 0 then []
      else let words = split_on 0x20 text;
               multiplier = multiplierFor fontFamily;
               lines = wrapWords maxWidth fontSize multiplier words
           in if length lines > 0 then lines else [text])"

section \<open>Markup escaping: \<^verbatim>\<open>escapeXml\<close> (lines 298-309)\<close>

text \<open>The character class \<^verbatim>\<open>[<>&'"]\<close> of the regular expression.\<close>

definition reserved :: "jschar set" where
  "reserved = {0x3C, 0x3E, 0x26, 0x27, 0x22}"

text \<open>
  The callback's \<^verbatim>\<open>switch\<close>. It has no default branch: for any other character the
  callback would return \<^verbatim>\<open>undefined\<close>, which \<^verbatim>\<open>replace\<close> prints as text.
\<close>

definition replacement :: "jschar \<Rightarrow> jsstring" where
  "replacement c =
     (if c = 0x3C then ascii ''&lt;''
      else if c = 0x3E then ascii ''&gt;''
      else if c = 0x26 then ascii ''&amp;''
      else if c = 0x27 then ascii ''&apos;''
      else if c = 0x22 then ascii ''&quot;''
      else ascii ''undefined'')"

definition escapeXml :: "jsstring \<Rightarrow> jsstring" where
  "escapeXml unsafe =
     (if unsafe = [] then []
      else concat (map (\<lambda>c. if c \<in> reserved then replacement c else [c]) unsafe))"

text \<open>
  The source has no decoder. The claim about decoding is stated against the usual
  decoder of the five entities, written after the specification's words: it reads the text
  left to right and turns each of the five entity names back into its character.
\<close>

fun unescapeXml :: "jsstring \<Rightarrow> jsstring" where
  "unescapeXml [] = []"
| "unescapeXml (c # cs) =
     (if c = 0x26 then
        (if take 3 cs = ascii ''lt;'' then 0x3C # unescapeXml (drop 3 cs)
         else if take 3 cs = ascii ''gt;'' then 0x3E # unescapeXml (drop 3 cs)
         else if take 4 cs = ascii ''amp;'' then 0x26 # unescapeXml (drop 4 cs)
         else if take 5 cs = ascii ''apos;'' then 0x27 # unescapeXml (drop 5 cs)
         else if take 5 cs = ascii ''quot;'' then 0x22 # unescapeXml (drop 5 cs)
         else c # unescapeXml cs)
      else c # unescapeXml cs)"


section \<open>Values of the request\<close>

text \<open>
  What \<^verbatim>\<open>JSON.parse\<close> returns, and \<^verbatim>\<open>undefined\<close> for a property that is missing.
  An object is the list of its own properties.
\<close>

datatype jsval =
    JUndefined
  | JNull
  | JBool bool
  | JNum rat
  | JStr jsstring
  | JArr "jsval list"
  | JObj "(jsstring \<times> jsval) list"

fun truthy :: "jsval \<Rightarrow> bool" where
  "truthy JUndefined = False"
| "truthy JNull = False"
| "truthy (JBool b) = b"
| "truthy (JNum n) = (n \<noteq> 0)"
| "truthy (JStr s) = (s \<noteq> [])"
| "truthy (JArr xs) = True"
| "truthy (JObj kvs) = True"

text \<open>
  Reading a property in the destructuring of line 476: a primitive or an array has none of
  the eight names, an object has it when it is among its own properties.
\<close>

fun property :: "jsval \<Rightarrow> jsstring \<Rightarrow> jsval" where
  "property (JObj kvs) k = (case map_of kvs k of Some x \<Rightarrow> x | None \<Rightarrow> JUndefined)"
| "property other k = JUndefined"

text \<open>A destructuring default \<^verbatim>\<open>name = d\<close> applies to \<^verbatim>\<open>undefined\<close> only.\<close>

definition withDefault :: "jsval \<Rightarrow> jsval \<Rightarrow> jsval" where
  "withDefault x d = (if x = JUndefined then d else x)"

text \<open>\<^verbatim>\<open>Array.isArray(x)\<close> with the elements: \<open>None\<close> when \<open>x\<close> is not an array.\<close>

fun elements :: "jsval \<Rightarrow> jsval list option" where
  "elements (JArr xs) = Some xs"
| "elements other = None"

text \<open>\<^verbatim>\<open>xs[i]\<close>: reading past the end of an array gives \<^verbatim>\<open>undefined\<close>.\<close>

definition elementAt :: "jsval list \<Rightarrow> nat \<Rightarrow> jsval" where
  "elementAt xs i = (if i < length xs then xs ! i else JUndefined)"

text \<open>\<^verbatim>\<open>a || b\<close> on header values: a header that is missing or empty is falsy.\<close>

fun orElse :: "jsstring option \<Rightarrow> jsstring \<Rightarrow> jsstring" where
  "orElse None d = d"
| "orElse (Some x) d = (if x \<noteq> [] then x else d)"

definition startsWith :: "jsstring \<Rightarrow> jsstring \<Rightarrow> bool" where
  "startsWith s p \<longleftrightarrow> take (length p) s = p"

section \<open>Image fetcher: \<^verbatim>\<open>downloadImage\<close> (lines 15-99)\<close>

text \<open>
  The network is a parameter. One request ends in one of four events: a response, an
  \<^verbatim>\<open>error\<close> event, a \<^verbatim>\<open>timeout\<close> event or an \<^verbatim>\<open>aborted\<close> event. A response has its status,
  the two headers the code reads, and its body: the chunks received before \<^verbatim>\<open>end\<close>, or the
  message of an \<^verbatim>\<open>error\<close> event of the stream.
\<close>

record response =
  resStatusCode :: nat
  resStatusMessage :: jsstring
  resLocation :: "jsstring option"
  resContentType :: "jsstring option"
  resBody :: "jsstring + bytes list"

datatype netEvent =
    Response response
  | RequestError jsstring
  | RequestTimeout
  | RequestAborted

text \<open>
  \<open>urlValid u\<close>: \<^verbatim>\<open>new URL(u)\<close> does not throw. \<open>resolveUrl location u\<close>:
  \<^verbatim>\<open>new URL(location, u).href\<close>, \<open>None\<close> when it throws. \<open>request k u\<close>: what the
  request to \<open>u\<close> ends in, when \<open>k\<close> redirects have been followed before it.
\<close>

record web =
  urlValid :: "jsval \<Rightarrow> bool"
  resolveUrl :: "jsstring \<Rightarrow> jsval \<Rightarrow> jsstring option"
  request :: "nat \<Rightarrow> jsval \<Rightarrow> netEvent"

datatype fetchError =
    TooManyRedirects nat
  | InvalidUrl
  | InvalidRedirectUrl jsstring
  | HttpError nat jsstring
  | InvalidContentType jsstring
  | EmptyResponse
  | StreamError jsstring
  | NetworkError jsstring
  | DownloadTimeout nat
  | DownloadAborted

text \<open>The \<^verbatim>\<open>message\<close> of the rejection.\<close>

fun errorMessage :: "fetchError \<Rightarrow> jsstring" where
  "errorMessage (TooManyRedirects m) =
     ascii ''Too many redirects (max '' @ decimal m @ ascii ''). Possible redirect loop.''"
| "errorMessage InvalidUrl = ascii ''Invalid URL''"
| "errorMessage (InvalidRedirectUrl location) = ascii ''Invalid redirect URL: '' @ location"
| "errorMessage (HttpError code msg) =
     ascii ''Failed to download image: HTTP '' @ decimal code @ ascii '' '' @ msg"
| "errorMessage (InvalidContentType ct) =
     ascii ''Invalid content type: '' @ ct @ ascii ''. Expected an image.''"
| "errorMessage EmptyResponse = ascii ''Empty response from image server''"
| "errorMessage (StreamError msg) = msg"
| "errorMessage (NetworkError msg) = ascii ''Network error: '' @ msg"
| "errorMessage (DownloadTimeout ms) =
     ascii ''Image download timeout after '' @ decimal ms @ ascii ''ms''"
| "errorMessage DownloadAborted = ascii ''Image download was aborted''"

text \<open>Lines 73-82: the body of an accepted response.\<close>

definition readBody :: "response \<Rightarrow> fetchError + bytes" where
  "readBody r =
     (case resBody r of
        Inl msg \<Rightarrow> Inl (StreamError msg)
      | Inr chunks \<Rightarrow> if length chunks = 0 then Inl EmptyResponse else Inr (concat chunks))"

text \<open>
  Lines 59-82, for a response that is not followed as a redirect. A header that is absent
  or empty is falsy.
\<close>

definition finalResponse :: "response \<Rightarrow> fetchError + bytes" where
  "finalResponse r =
     (if resStatusCode r \<noteq> 200
      then Inl (HttpError (resStatusCode r) (resStatusMessage r))
      else case resContentType r of
        None \<Rightarrow> readBody r
      | Some contentType \<Rightarrow>
          if contentType \<noteq> [] \<and> \<not> startsWith contentType (ascii ''image/'')
          then Inl (InvalidContentType contentType)
          else readBody r)"

text \<open>The test of line 35: a 3xx status with a non-empty \<^verbatim>\<open>Location\<close> header.\<close>

definition redirectTarget :: "response \<Rightarrow> jsstring option" where
  "redirectTarget r =
     (if 300 \<le> resStatusCode r \<and> resStatusCode r < 400
      then (case resLocation r of
              Some location \<Rightarrow> if location \<noteq> [] then Some location else None
            | None \<Rightarrow> None)
      else None)"

function downloadImage :: "web \<Rightarrow> jsval \<Rightarrow> nat \<Rightarrow> nat \<Rightarrow> fetchError + bytes" where
  "downloadImage w url maxRedirects redirectCount =
     (if redirectCount > maxRedirects then Inl (TooManyRedirects maxRedirects)
      else if \<not> urlValid w url then Inl InvalidUrl
      else case request w redirectCount url of
        RequestError msg \<Rightarrow> Inl (NetworkError msg)
      | RequestTimeout \<Rightarrow> Inl (DownloadTimeout 10000)
      | RequestAborted \<Rightarrow> Inl DownloadAborted
      | Response r \<Rightarrow>
          (case redirectTarget r of
             Some location \<Rightarrow>
               (case resolveUrl w location url of
                  None \<Rightarrow> Inl (InvalidRedirectUrl location)
                | Some redirectUrl \<Rightarrow>
                    downloadImage w (JStr redirectUrl) maxRedirects (redirectCount + 1))
           | None \<Rightarrow> finalResponse r))"
  by pat_completeness auto
termination
  by (relation "measure (\<lambda>(w, url, maxRedirects, redirectCount). Suc maxRedirects - redirectCount)")
    auto

declare downloadImage.simps [simp del]

text \<open>
  Redirect chains, read off the network. \<open>followed w k url n\<close> is the address at which
  \<open>n\<close> redirects arrive that start with the request to \<open>url\<close> (the \<open>k\<close>-th request of
  the download): each of the \<open>n\<close> requests is answered by a 3xx status with a
  \<^verbatim>\<open>Location\<close> that resolves. \<open>terminal w k url\<close> is the answer to the request to
  \<open>url\<close> when it is a response that is not such a redirect.
\<close>

fun followed :: "web \<Rightarrow> nat \<Rightarrow> jsval \<Rightarrow> nat \<Rightarrow> jsval option" where
  "followed w k url 0 = Some url"
| "followed w k url (Suc n) =
     (if \<not> urlValid w url then None
      else case request w k url of
        Response r \<Rightarrow>
          (case redirectTarget r of
             None \<Rightarrow> None
           | Some location \<Rightarrow>
               (case resolveUrl w location url of
                  None \<Rightarrow> None
                | Some redirectUrl \<Rightarrow> followed w (k + 1) (JStr redirectUrl) n))
      | RequestError msg \<Rightarrow> None
      | RequestTimeout \<Rightarrow> None
      | RequestAborted \<Rightarrow> None)"

definition terminal :: "web \<Rightarrow> nat \<Rightarrow> jsval \<Rightarrow> response option" where
  "terminal w k url =
     (if \<not> urlValid w url then None
      else case request w k url of
        Response r \<Rightarrow> (case redirectTarget r of None \<Rightarrow> Some r | Some location \<Rightarrow> None)
      | RequestError msg \<Rightarrow> None
      | RequestTimeout \<Rightarrow> None
      | RequestAborted \<Rightarrow> None)"

text \<open>
  Two networks for concrete runs. In the first, every address is valid, the first \<open>hops\<close>
  requests are answered by 302 with a \<^verbatim>\<open>Location\<close>, and every later request by 200 with
  the given content type and two bytes. In the second, every request is answered by 404
  with an HTML page.
\<close>

definition redirectingWeb :: "nat \<Rightarrow> jsstring \<Rightarrow> web" where
  "redirectingWeb hops contentType =
     \<lparr>urlValid = (\<lambda>url. True),
      resolveUrl = (\<lambda>location url. Some (ascii ''http://img/next'')),
      request = (\<lambda>k url.
        if k < hops
        then Response \<lparr>resStatusCode = 302, resStatusMessage = ascii ''Found'',
                       resLocation = Some (ascii ''/next''), resContentType = None,
                       resBody = Inr []\<rparr>
        else Response \<lparr>resStatusCode = 200, resStatusMessage = ascii ''OK'',
                       resLocation = None, resContentType = Some contentType,
                       resBody = Inr [[0x89, 0x50]]\<rparr>)\<rparr>"

definition notFoundPage :: response where
  "notFoundPage =
     \<lparr>resStatusCode = 404, resStatusMessage = ascii ''Not Found'', resLocation = None,
      resContentType = Some (ascii ''text/html''), resBody = Inr [[0x3C]]\<rparr>"

definition notFoundWeb :: web where
  "notFoundWeb =
     \<lparr>urlValid = (\<lambda>url. True), resolveUrl = (\<lambda>location url. None),
      request = (\<lambda>k url. Response notFoundPage)\<rparr>"

section \<open>Slide renderer: \<^verbatim>\<open>generateSlide\<close> (lines 314-383)\<close>

datatype slideResult =
    success: Success (base64: jsstring) (filename: jsstring)
  | Failure (error: jsstring) (filename: jsstring)

text \<open>The result of \<^verbatim>\<open>uploadToDrive\<close> (lines 417-428), which catches its own failures.\<close>

datatype driveResult =
    driveSuccess: DriveSuccess (fileId: jsval) (webViewLink: jsval) (webContentLink: jsval)
  | DriveFailure jsstring

text \<open>An entry of \<^verbatim>\<open>images\<close>: a successful slide as it is, or its file name with a link.\<close>

datatype image =
    Inline slideResult
  | Linked jsstring jsval

record slideStats =
  totalSlides :: nat
  successful :: nat
  failed :: nat
  generationTimeMs :: nat
  dimensions :: "jsval \<times> jsval"

text \<open>
  The object built at lines 571-583. A property that the source sets to \<^verbatim>\<open>undefined\<close>
  is \<open>None\<close>.
\<close>

record successResponse =
  images :: "image list"
  failedSlides :: "slideResult list option"
  driveUrls :: "driveResult list option"
  stats :: slideStats

text \<open>
  What the module takes from outside, as parameters:
  \<^item> \<open>parseJSON\<close>: \<^verbatim>\<open>JSON.parse\<close>, \<open>Inl\<close> the message of the error it throws;
  \<^item> \<open>toNumberOther\<close>: the numeric value of a string, an array or an object in a
    comparison with a number, \<open>None\<close> for NaN;
  \<^item> \<open>network i\<close>: the network as the download of slide \<open>i\<close> meets it;
  \<^item> \<open>raster i buffer slide width height\<close>: the rest of the \<^verbatim>\<open>try\<close> block of
    \<^verbatim>\<open>generateSlide\<close> after the download (lines 319-368: the resize, the text overlay, the
    composite and the base64 text), \<open>Inl\<close> the message of the error it throws;
  \<^item> \<open>googleapis\<close>: the message of the error that \<^verbatim>\<open>require('googleapis')\<close> throws
    (line 389, outside the \<^verbatim>\<open>try\<close> of \<^verbatim>\<open>uploadToDrive\<close>), \<open>None\<close> when the module loads;
  \<^item> \<open>driveCreate i base64 filename token folder\<close>: the result of the \<open>i\<close>-th upload;
  \<^item> \<open>serializedSize\<close>: \<^verbatim>\<open>Buffer.byteLength(JSON.stringify(response), 'utf8')\<close>;
  \<^item> \<open>elapsedMs\<close>: the difference of the two readings of the clock (lines 522, 534).
\<close>

record extern =
  parseJSON :: "jsstring \<Rightarrow> jsstring + jsval"
  toNumberOther :: "jsval \<Rightarrow> rat option"
  network :: "nat \<Rightarrow> web"
  raster :: "nat \<Rightarrow> bytes \<Rightarrow> jsval \<Rightarrow> jsval \<Rightarrow> jsval \<Rightarrow> jsstring + jsstring"
  googleapis :: "jsstring option"
  driveCreate :: "nat \<Rightarrow> jsstring \<Rightarrow> jsstring \<Rightarrow> jsval \<Rightarrow> jsval \<Rightarrow> driveResult"
  serializedSize :: "successResponse \<Rightarrow> nat"
  elapsedMs :: nat

definition slideFilename :: "nat \<Rightarrow> jsstring" where
  "slideFilename index = ascii ''carousel-slide-'' @ decimal (index + 1) @ ascii ''.png''"

text \<open>
  The \<^verbatim>\<open>try\<close> block returns the success object; the \<^verbatim>\<open>catch\<close> block turns whatever
  was thrown in it into the failure object.
\<close>

definition generateSlide :: "extern \<Rightarrow> jsval \<Rightarrow> jsval \<Rightarrow> jsval \<Rightarrow> jsval \<Rightarrow> nat \<Rightarrow> slideResult" where
  "generateSlide ext background slide width height index =
     (case downloadImage (network ext index) background 10 0 of
        Inl e \<Rightarrow> Failure (errorMessage e) (slideFilename index)
      | Inr backgroundBuffer \<Rightarrow>
          (case raster ext index backgroundBuffer slide width height of
             Inl msg \<Rightarrow> Failure msg (slideFilename index)
           | Inr encoded \<Rightarrow>
               Success (ascii ''data:image/png;base64,'' @ encoded) (slideFilename index)))"

section \<open>Rate-limit cache (lines 7-9)\<close>

text \<open>
  \<^verbatim>\<open>new NodeCache({ stdTTL: 60 })\<close> of the library node-cache, which is not part of the
  repository. The model follows the library: \<^verbatim>\<open>set(key, value)\<close> without a ttl argument
  stores the value with the expiry time \<^verbatim>\<open>Date.now() + stdTTL * 1000\<close>, replacing the entry
  and its expiry time when the key is already there; \<^verbatim>\<open>get(key)\<close> returns the value of an
  entry whose expiry time is not before \<^verbatim>\<open>Date.now()\<close>, and deletes an expired entry and
  returns \<^verbatim>\<open>undefined\<close>. Times are milliseconds.
\<close>

record cacheEntry =
  entryValue :: nat
  entryExpiry :: nat

type_synonym nodeCache = "jsstring \<Rightarrow> cacheEntry option"

definition stdTTL :: nat where
  "stdTTL = 60"

definition RATE_LIMIT :: nat where
  "RATE_LIMIT = 10"

definition cacheGet :: "nodeCache \<Rightarrow> nat \<Rightarrow> jsstring \<Rightarrow> nat option \<times> nodeCache" where
  "cacheGet c now key =
     (case c key of
        None \<Rightarrow> (None, c)
      | Some e \<Rightarrow>
          if entryExpiry e \<noteq> 0 \<and> entryExpiry e < now then (None, c(key := None))
          else (Some (entryValue e), c))"

definition cacheSet :: "nodeCache \<Rightarrow> nat \<Rightarrow> jsstring \<Rightarrow> nat \<Rightarrow> nodeCache" where
  "cacheSet c now key v = c(key \<mapsto> \<lparr>entryValue = v, entryExpiry = now + stdTTL * 1000\<rparr>)"

section \<open>Request handler (lines 435-661)\<close>

record event =
  httpMethod :: jsstring
  headers :: "jsstring \<Rightarrow> jsstring option"
  body :: "jsstring option"

datatype responseBody =
    EmptyBody
  | ErrorBody jsstring
  | SuccessBody successResponse
  | TooLargeBody (tooLargeError: jsstring) (suggestion: jsstring) (tooLargeStats: slideStats)
  | InternalErrorBody jsstring

record httpReply =
  statusCode :: nat
  replyHeaders :: "(string \<times> string) list"
  replyBody :: responseBody

text \<open>What one call of the handler leaves: its reply, the cache, and the number of
  \<^verbatim>\<open>generateSlide\<close> calls it has made.\<close>

record outcome =
  reply :: httpReply
  cache :: nodeCache
  jobs :: nat

definition jsonHeaders :: "(string \<times> string) list" where
  "jsonHeaders = [(''Content-Type'', ''application/json''), (''Access-Control-Allow-Origin'', ''*'')]"

definition badRequest :: "jsstring \<Rightarrow> httpReply" where
  "badRequest msg = \<lparr>statusCode = 400, replyHeaders = [], replyBody = ErrorBody msg\<rparr>"

text \<open>The \<^verbatim>\<open>catch\<close> block of lines 646-660 (the \<^verbatim>\<open>stack\<close> property is left out).\<close>

definition internalError :: "jsstring \<Rightarrow> httpReply" where
  "internalError msg =
     \<lparr>statusCode = 500, replyHeaders = jsonHeaders,
      replyBody = InternalErrorBody (if msg \<noteq> [] then msg else ascii ''Internal server error'')\<rparr>"

definition toNumber :: "extern \<Rightarrow> jsval \<Rightarrow> rat option" where
  "toNumber ext x =
     (case x of
        JUndefined \<Rightarrow> None
      | JNull \<Rightarrow> Some 0
      | JBool b \<Rightarrow> Some (if b then 1 else 0)
      | JNum n \<Rightarrow> Some n
      | JStr s \<Rightarrow> toNumberOther ext x
      | JArr xs \<Rightarrow> toNumberOther ext x
      | JObj kvs \<Rightarrow> toNumberOther ext x)"

text \<open>\<^verbatim>\<open>x < n\<close> and \<^verbatim>\<open>x > n\<close> for a number \<open>n\<close>: false when \<open>x\<close> is NaN.\<close>

definition lessThan :: "extern \<Rightarrow> jsval \<Rightarrow> rat \<Rightarrow> bool" where
  "lessThan ext x n = (case toNumber ext x of Some v \<Rightarrow> v < n | None \<Rightarrow> False)"

definition greaterThan :: "extern \<Rightarrow> jsval \<Rightarrow> rat \<Rightarrow> bool" where
  "greaterThan ext x n = (case toNumber ext x of Some v \<Rightarrow> v > n | None \<Rightarrow> False)"

text \<open>The validation of lines 487-519: the message of the 400 reply, if there is one.\<close>

definition validationError :: "extern \<Rightarrow> jsval \<Rightarrow> jsval \<Rightarrow> jsval \<Rightarrow> jsval \<Rightarrow> jsstring option" where
  "validationError ext backgrounds slides width height =
     (if elements backgrounds = None \<or> length (the (elements backgrounds)) = 0
      then Some (ascii ''backgrounds array is required and must not be empty'')
      else if elements slides = None \<or> length (the (elements slides)) = 0
      then Some (ascii ''slides array is required and must not be empty'')
      else if length (the (elements backgrounds)) \<noteq> length (the (elements slides))
      then Some (ascii ''backgrounds and slides arrays must have the same length'')
      else if lessThan ext width 200 \<or> greaterThan ext width 4000
              \<or> lessThan ext height 200 \<or> greaterThan ext height 4000
      then Some (ascii ''Width and height must be between 200 and 4000 pixels'')
      else None)"

text \<open>
  Lines 523-533: one \<^verbatim>\<open>generateSlide\<close> call for each background, with the slide of the
  same index; \<^verbatim>\<open>Promise.all\<close> gives the results in the order of the calls.
\<close>

definition generateAll :: "extern \<Rightarrow> jsval list \<Rightarrow> jsval list \<Rightarrow> jsval \<Rightarrow> jsval \<Rightarrow> slideResult list" where
  "generateAll ext backgrounds slides width height =
     map (\<lambda>(index, background).
            generateSlide ext background (elementAt slides index) width height index)
         (enumerate 0 backgrounds)"

text \<open>
  Lines 536-583, from the results to the response object. \<open>Inl\<close> is the message of an
  error thrown on the way, which the \<^verbatim>\<open>catch\<close> of the handler receives.
\<close>

definition buildResponse ::
  "extern \<Rightarrow> slideResult list \<Rightarrow> nat \<Rightarrow> jsval \<Rightarrow> jsval \<Rightarrow> jsval \<Rightarrow> jsval \<Rightarrow> jsval \<Rightarrow> jsval
     \<Rightarrow> jsstring + successResponse" where
  "buildResponse ext results count width height shouldUploadToDrive driveToken driveFolderId
       returnUrls =
     (let successfulSlides = filter success results;
          failedSlides = filter (\<lambda>r. \<not> success r) results;
          uploading = (truthy shouldUploadToDrive \<and> truthy driveToken
                        \<and> length successfulSlides > 0)
      in case (if uploading then googleapis ext else None) of
        Some msg \<Rightarrow> Inl msg
      | None \<Rightarrow>
          let driveUrls =
                (if uploading
                 then map (\<lambda>(i, slide).
                             driveCreate ext i (base64 slide) (filename slide) driveToken
                               driveFolderId)
                          (enumerate 0 successfulSlides)
                 else []);
              responseImages =
                (if truthy returnUrls \<and> length driveUrls > 0 \<and> list_all driveSuccess driveUrls
                 then map (\<lambda>(slide, url).
                             Linked (filename slide)
                               (if truthy (webContentLink url) then webContentLink url
                                else webViewLink url))
                          (zip successfulSlides driveUrls)
                 else map Inline successfulSlides)
          in Inr \<lparr>images = responseImages,
                  failedSlides = (if length failedSlides > 0 then Some failedSlides else None),
                  driveUrls = (if length driveUrls > 0 then Some driveUrls else None),
                  stats = \<lparr>totalSlides = count,
                           successful = length successfulSlides,
                           failed = length failedSlides,
                           generationTimeMs = elapsedMs ext,
                           dimensions = (width, height)\<rparr>\<rparr>)"

text \<open>
  The size in the message of the 413 reply:
  \<^verbatim>\<open>Math.round(responseSizeBytes / 1024 / 1024 * 100) / 100\<close>, printed.
\<close>

definition megabytes :: "nat \<Rightarrow> jsstring" where
  "megabytes sizeBytes =
     (let hundredths = (sizeBytes * 200 + 1048576) div 2097152
      in decimal (hundredths div 100)
         @ (if hundredths mod 100 = 0 then []
            else if hundredths mod 10 = 0 then ascii ''.'' @ decimal (hundredths mod 100 div 10)
            else ascii ''.'' @ decimal (hundredths mod 100 div 10) @ decimal (hundredths mod 10)))"

definition tooLargeMessage :: "nat \<Rightarrow> jsstring" where
  "tooLargeMessage sizeBytes =
     ascii ''Response payload too large ('' @ megabytes sizeBytes @ ascii ''MB). Maximum allowed: 6MB.''"

text \<open>The two \<^verbatim>\<open>suggestion\<close> texts of lines 602 and 623.\<close>

definition suggestReturnUrls :: jsstring where
  "suggestReturnUrls =
     ascii ''Set '' @ [0x22] @ ascii ''returnUrls'' @ [0x22]
     @ ascii '': true in your request to return Drive URLs instead of base64 data, or reduce the number of slides.''"

definition suggestReduce :: jsstring where
  "suggestReduce =
     ascii ''Reduce the number of slides, use smaller dimensions, or enable Google Drive upload with ''
     @ [0x22] @ ascii ''returnUrls'' @ [0x22]
     @ ascii '': true to get URLs instead of base64 data.''"

text \<open>Lines 585-644: the size check and the reply.\<close>

definition finish :: "extern \<Rightarrow> successResponse \<Rightarrow> httpReply" where
  "finish ext response =
     (let responseSizeBytes = serializedSize ext response;
          maxSizeBytes = 6000000
      in if responseSizeBytes > maxSizeBytes
         then (if driveUrls response \<noteq> None
               then \<lparr>statusCode = 413, replyHeaders = jsonHeaders,
                     replyBody = TooLargeBody (tooLargeMessage responseSizeBytes)
                       suggestReturnUrls
                       (stats response)\<rparr>
               else \<lparr>statusCode = 413, replyHeaders = jsonHeaders,
                     replyBody = TooLargeBody (tooLargeMessage responseSizeBytes)
                       suggestReduce
                       (stats response)\<rparr>)
         else \<lparr>statusCode = 200, replyHeaders = jsonHeaders, replyBody = SuccessBody response\<rparr>)"

text \<open>
  The destructuring of lines 476-485, with its defaults. The source's name for the
  \<^verbatim>\<open>uploadToDrive\<close> property is \<^verbatim>\<open>shouldUploadToDrive\<close>.
\<close>

record request =
  backgrounds :: jsval
  slides :: jsval
  width :: jsval
  height :: jsval
  shouldUploadToDrive :: jsval
  driveToken :: jsval
  driveFolderId :: jsval
  returnUrls :: jsval

definition destructure :: "jsval \<Rightarrow> request" where
  "destructure parsed =
     \<lparr>backgrounds = withDefault (property parsed (ascii ''backgrounds'')) (JArr []),
      slides = withDefault (property parsed (ascii ''slides'')) (JArr []),
      width = withDefault (property parsed (ascii ''width'')) (JNum 1080),
      height = withDefault (property parsed (ascii ''height'')) (JNum 1080),
      shouldUploadToDrive = withDefault (property parsed (ascii ''uploadToDrive'')) (JBool False),
      driveToken = withDefault (property parsed (ascii ''driveToken'')) JNull,
      driveFolderId = withDefault (property parsed (ascii ''driveFolderId'')) JNull,
      returnUrls = withDefault (property parsed (ascii ''returnUrls'')) (JBool False)\<rparr>"

text \<open>Lines 487-519 on the destructured request.\<close>

definition validate :: "extern \<Rightarrow> request \<Rightarrow> jsstring option" where
  "validate ext req = validationError ext (backgrounds req) (slides req) (width req) (height req)"

text \<open>Lines 521-583 on a request that has passed the validation.\<close>

definition slideResults :: "extern \<Rightarrow> request \<Rightarrow> slideResult list" where
  "slideResults ext req =
     generateAll ext (the (elements (backgrounds req))) (the (elements (slides req)))
       (width req) (height req)"

definition responseFor :: "extern \<Rightarrow> request \<Rightarrow> jsstring + successResponse" where
  "responseFor ext req =
     buildResponse ext (slideResults ext req) (length (the (elements (backgrounds req))))
       (width req) (height req) (shouldUploadToDrive req) (driveToken req)
       (driveFolderId req) (returnUrls req)"

text \<open>
  \<^verbatim>\<open>JSON.parse(event.body)\<close>: a body of \<^verbatim>\<open>null\<close> parses to \<^verbatim>\<open>null\<close>.
\<close>

definition parseBody :: "extern \<Rightarrow> event \<Rightarrow> jsstring + jsval" where
  "parseBody ext ev = (case body ev of None \<Rightarrow> Inr JNull | Some text \<Rightarrow> parseJSON ext text)"

text \<open>The message of the TypeError that destructuring \<^verbatim>\<open>null\<close> throws in Node.\<close>

definition destructureNull :: jsstring where
  "destructureNull =
     ascii ''Cannot destructure property '' @ [0x27] @ ascii ''backgrounds'' @ [0x27]
     @ ascii '' of '' @ [0x27] @ ascii ''body'' @ [0x27] @ ascii '' as it is null.''"

text \<open>
  Lines 474-644, the handler after the rate limit: the reply and the number of
  \<^verbatim>\<open>generateSlide\<close> calls made. Destructuring \<^verbatim>\<open>null\<close> throws; an error thrown
  anywhere goes to the \<^verbatim>\<open>catch\<close> block.
\<close>

definition handleAdmitted :: "extern \<Rightarrow> event \<Rightarrow> httpReply \<times> nat" where
  "handleAdmitted ext ev =
     (case parseBody ext ev of
        Inl msg \<Rightarrow> (internalError msg, 0)
      | Inr parsed \<Rightarrow>
          if parsed = JNull \<or> parsed = JUndefined
          then (internalError destructureNull, 0)
          else (case validate ext (destructure parsed) of
                  Some msg \<Rightarrow> (badRequest msg, 0)
                | None \<Rightarrow>
                    (case responseFor ext (destructure parsed) of
                       Inl msg \<Rightarrow>
                         (internalError msg,
                          length (the (elements (backgrounds (destructure parsed)))))
                     | Inr response \<Rightarrow>
                         (finish ext response,
                          length (the (elements (backgrounds (destructure parsed))))))))"

definition clientIP :: "event \<Rightarrow> jsstring" where
  "clientIP ev =
     orElse (headers ev (ascii ''x-forwarded-for''))
       (orElse (headers ev (ascii ''client-ip'')) (ascii ''unknown''))"

text \<open>\<^verbatim>\<open>rateLimitCache.get(clientIP) || 0\<close> at time \<open>now\<close>.\<close>

definition requestCount :: "nodeCache \<Rightarrow> nat \<Rightarrow> jsstring \<Rightarrow> nat" where
  "requestCount c now ip = (case fst (cacheGet c now ip) of Some n \<Rightarrow> n | None \<Rightarrow> 0)"

definition handler :: "extern \<Rightarrow> nodeCache \<Rightarrow> nat \<Rightarrow> event \<Rightarrow> outcome" where
  "handler ext c now ev =
     (if httpMethod ev = ascii ''OPTIONS''
      then \<lparr>reply = \<lparr>statusCode = 200,
                      replyHeaders = [(''Access-Control-Allow-Origin'', ''*''),
                                      (''Access-Control-Allow-Methods'', ''POST, OPTIONS''),
                                      (''Access-Control-Allow-Headers'', ''Content-Type'')],
                      replyBody = EmptyBody\<rparr>,
            cache = c, jobs = 0\<rparr>
      else if httpMethod ev \<noteq> ascii ''POST''
      then \<lparr>reply = \<lparr>statusCode = 405, replyHeaders = [],
                      replyBody = ErrorBody (ascii ''Method not allowed. Use POST.'')\<rparr>,
            cache = c, jobs = 0\<rparr>
      else if requestCount c now (clientIP ev) \<ge> RATE_LIMIT
      then \<lparr>reply = \<lparr>statusCode = 429, replyHeaders = [],
                      replyBody = ErrorBody
                        (ascii ''Rate limit exceeded. Maximum 10 requests per minute.'')\<rparr>,
            cache = snd (cacheGet c now (clientIP ev)), jobs = 0\<rparr>
      else \<lparr>reply = fst (handleAdmitted ext ev),
            cache = cacheSet (snd (cacheGet c now (clientIP ev))) now (clientIP ev)
                      (requestCount c now (clientIP ev) + 1),
            jobs = snd (handleAdmitted ext ev)\<rparr>)"

text \<open>The handler on a sequence of requests, each with the time at which it arrives.\<close>

fun serve :: "extern \<Rightarrow> nodeCache \<Rightarrow> (nat \<times> event) list \<Rightarrow> httpReply list" where
  "serve ext c [] = []"
| "serve ext c ((now, ev) # rest) =
     reply (handler ext c now ev) # serve ext (cache (handler ext c now ev)) rest"

fun cacheAfter :: "extern \<Rightarrow> nodeCache \<Rightarrow> (nat \<times> event) list \<Rightarrow> nodeCache" where
  "cacheAfter ext c [] = c"
| "cacheAfter ext c ((now, ev) # rest) = cacheAfter ext (cache (handler ext c now ev)) rest"

section \<open>Concrete inputs\<close>

text \<open>A POST request from a client address, and the cache of a process that has just started.\<close>

definition postFrom :: "jsstring \<Rightarrow> jsstring option \<Rightarrow> event" where
  "postFrom ip b =
     \<lparr>httpMethod = ascii ''POST'',
      headers = (\<lambda>name. if name = ascii ''x-forwarded-for'' then Some ip else None),
      body = b\<rparr>"

definition emptyCache :: nodeCache where
  "emptyCache = (\<lambda>key. None)"

text \<open>Two request bodies and the values they parse to, and a body that is no JSON text.\<close>

definition quoted :: "jsstring \<Rightarrow> jsstring" where
  "quoted s = [0x22] @ s @ [0x22]"

definition twoSlidesText :: jsstring where
  "twoSlidesText =
     ascii ''{'' @ quoted (ascii ''backgrounds'') @ ascii '':[''
     @ quoted (ascii ''http://img/a'') @ ascii '','' @ quoted (ascii ''http://img/b'')
     @ ascii ''],'' @ quoted (ascii ''slides'') @ ascii '':[{},{}]}''"

definition twoToOneText :: jsstring where
  "twoToOneText =
     ascii ''{'' @ quoted (ascii ''backgrounds'') @ ascii '':[''
     @ quoted (ascii ''http://img/a'') @ ascii '','' @ quoted (ascii ''http://img/b'')
     @ ascii ''],'' @ quoted (ascii ''slides'') @ ascii '':[{}]}''"

definition twoSlides :: jsval where
  "twoSlides =
     JObj [(ascii ''backgrounds'', JArr [JStr (ascii ''http://img/a''), JStr (ascii ''http://img/b'')]),
           (ascii ''slides'', JArr [JObj [], JObj []])]"

definition twoToOne :: jsval where
  "twoToOne =
     JObj [(ascii ''backgrounds'', JArr [JStr (ascii ''http://img/a''), JStr (ascii ''http://img/b'')]),
           (ascii ''slides'', JArr [JObj []])]"

text \<open>
  An environment for concrete runs. It parses the three bodies above and the body
  \<^verbatim>\<open>{}\<close>. The download of slide 0 meets the network that answers 404, the others one
  that answers 200 with an image; the raster step succeeds; the upload module loads and
  every upload fails; the response serializes to the given number of bytes.
\<close>

definition exampleExtern :: "nat \<Rightarrow> extern" where
  "exampleExtern responseSize =
     \<lparr>parseJSON = (\<lambda>text. if text = ascii ''{}'' then Inr (JObj [])
                           else if text = twoSlidesText then Inr twoSlides
                           else if text = twoToOneText then Inr twoToOne
                           else Inl (ascii ''Unexpected token'')),
      toNumberOther = (\<lambda>x. None),
      network = (\<lambda>i. if i = 0 then notFoundWeb else redirectingWeb 0 (ascii ''image/png'')),
      raster = (\<lambda>i buffer slide w h. Inr (ascii ''iVBORw0KGgo='')),
      googleapis = None,
      driveCreate = (\<lambda>i encoded name token folder. DriveFailure (ascii ''no token'')),
      serializedSize = (\<lambda>response. responseSize),
      elapsedMs = 1200\<rparr>"

section \<open>The text wrapper\<close>


lemma wrapStep_empty: "wrapStep mw fs m (lines, []) w = (lines, w)"
  by (simp add: wrapStep_def)

lemma wrapStep_break:
  "cur \<noteq> [] \<Longrightarrow> mw < of_nat (length (cur @ ascii '' '' @ w)) * fs * m
     \<Longrightarrow> wrapStep mw fs m (lines, cur) w = (lines @ [cur], w)"
  unfolding wrapStep_def Let_def by simp

lemma wrapStep_join:
  "cur \<noteq> [] \<Longrightarrow> \<not> mw < of_nat (length (cur @ ascii '' '' @ w)) * fs * m
     \<Longrightarrow> wrapStep mw fs m (lines, cur) w = (lines, cur @ ascii '' '' @ w)"
  unfolding wrapStep_def Let_def by simp


lemma wrapLoop_Nil: "wrapLoop mw fs m st [] = st"
  by (simp add: wrapLoop_def)

lemma wrapLoop_Cons: "wrapLoop mw fs m st (w # ws) = wrapLoop mw fs m (wrapStep mw fs m st w) ws"
  by (simp add: wrapLoop_def)







lemma trim_Nil: "trim [] = []"
  by (simp add: trim_def)

lemma split_on_not_Nil: "split_on sep xs \<noteq> []"
  by (induction xs) (simp_all split: list.splits)

lemma set_split_on: "\<Union> (set ` set (split_on sep xs)) = set xs - {sep}"
proof (induction xs)
  case Nil
  show ?case by simp
next
  case (Cons c cs)
  show ?case
  proof (cases "c = sep")
    case True
    with Cons show ?thesis by auto
  next
    case False
    obtain w ws where s: "split_on sep cs = w # ws"
      using split_on_not_Nil [of sep cs] by (cases "split_on sep cs") auto
    with Cons False show ?thesis by auto
  qed
qed

lemma trim_not_Nil: "trim s \<noteq> [] \<Longrightarrow> \<exists>c \<in> set s. \<not> isWhiteSpace c"
proof (rule ccontr)
  assume t: "trim s \<noteq> []" and "\<not> (\<exists>c \<in> set s. \<not> isWhiteSpace c)"
  then have "\<forall>c \<in> set s. isWhiteSpace c" by blast
  then have "dropWhile isWhiteSpace s = []" by simp
  with t show False by (simp add: trim_def)
qed

lemma nonblank_has_word:
  assumes "trim text \<noteq> []"
  shows "\<exists>w \<in> set (split_on 0x20 text). w \<noteq> []"
proof -
  from assms obtain c where c: "c \<in> set text" "\<not> isWhiteSpace c"
    using trim_not_Nil by blast
  then have "c \<noteq> 0x20" by (auto simp: isWhiteSpace_def)
  with c(1) have "c \<in> \<Union> (set ` set (split_on 0x20 text))"
    unfolding set_split_on by simp
  then obtain w where "w \<in> set (split_on 0x20 text)" "c \<in> set w" by blast
  then have "w \<in> set (split_on 0x20 text)" "w \<noteq> []" by auto
  then show ?thesis by blast
qed

lemma wrapStep_started:
  assumes "fst st \<noteq> [] \<or> snd st \<noteq> [] \<or> w \<noteq> []"
  shows "fst (wrapStep mw fs m st w) \<noteq> [] \<or> snd (wrapStep mw fs m st w) \<noteq> []"
proof -
  obtain lines cur where st: "st = (lines, cur)" by (cases st)
  show ?thesis
  proof (cases "cur = []")
    case True
    with assms st show ?thesis by (auto simp: wrapStep_empty)
  next
    case False
    show ?thesis
    proof (cases "mw < of_nat (length (cur @ ascii '' '' @ w)) * fs * m")
      case True
      show ?thesis unfolding st wrapStep_break [OF False True] by simp
    next
      case no: False
      show ?thesis unfolding st wrapStep_join [OF False no] using False by simp
    qed
  qed
qed

lemma wrapLoop_started:
  "fst st \<noteq> [] \<or> snd st \<noteq> [] \<or> (\<exists>w \<in> set ws. w \<noteq> []) \<Longrightarrow>
     fst (wrapLoop mw fs m st ws) \<noteq> [] \<or> snd (wrapLoop mw fs m st ws) \<noteq> []"
proof (induction ws arbitrary: st)
  case Nil
  then show ?case by (simp add: wrapLoop_Nil)
next
  case (Cons w ws)
  show ?case
  proof (cases "fst st \<noteq> [] \<or> snd st \<noteq> [] \<or> w \<noteq> []")
    case True
    then have "fst (wrapStep mw fs m st w) \<noteq> [] \<or> snd (wrapStep mw fs m st w) \<noteq> []"
      by (rule wrapStep_started)
    then show ?thesis unfolding wrapLoop_Cons by (intro Cons.IH) blast
  next
    case False
    with Cons.prems have "\<exists>w \<in> set ws. w \<noteq> []" by auto
    then show ?thesis unfolding wrapLoop_Cons by (intro Cons.IH) blast
  qed
qed

lemma wrapWords_not_Nil:
  assumes "\<exists>w \<in> set ws. w \<noteq> []"
  shows "wrapWords mw fs m ws \<noteq> []"
proof -
  have "fst (wrapLoop mw fs m ([], []) ws) \<noteq> [] \<or> snd (wrapLoop mw fs m ([], []) ws) \<noteq> []"
    using assms by (intro wrapLoop_started) blast
  then show ?thesis
    by (cases "wrapLoop mw fs m ([], []) ws") (auto simp: wrapWords_def)
qed

text \<open>
  Claim C6, as the code has it: the wrapper returns no line for the empty text and for a
  text of white space only, and at least one line for every text that has a character
  other than white space; for such a text the lines are those of the loop, so that the
  fallback to the whole text is never taken.
\<close>

theorem wrap_empty_or_blank:
  "wrapTextIntoLines [] maxWidth fontSize fontFamily = []
   \<and> (trim text = [] \<longrightarrow> wrapTextIntoLines text maxWidth fontSize fontFamily = [])
   \<and> (trim text \<noteq> [] \<longrightarrow>
        wrapTextIntoLines text maxWidth fontSize fontFamily \<noteq> []
        \<and> wrapTextIntoLines text maxWidth fontSize fontFamily
            = wrapWords maxWidth fontSize (multiplierFor fontFamily) (split_on 0x20 text))"
proof (intro conjI impI)
  show "wrapTextIntoLines [] maxWidth fontSize fontFamily = []"
    by (simp add: wrapTextIntoLines_def)
  show "wrapTextIntoLines text maxWidth fontSize fontFamily = []" if "trim text = []"
    using that by (simp add: wrapTextIntoLines_def)
next
  assume t: "trim text \<noteq> []"
  then have ne: "text \<noteq> []" using trim_Nil by blast
  have w: "wrapWords maxWidth fontSize (multiplierFor fontFamily) (split_on 0x20 text) \<noteq> []"
    using nonblank_has_word [OF t] by (rule wrapWords_not_Nil)
  show eq: "wrapTextIntoLines text maxWidth fontSize fontFamily
            = wrapWords maxWidth fontSize (multiplierFor fontFamily) (split_on 0x20 text)"
    using t ne w by (simp add: wrapTextIntoLines_def Let_def)
  show "wrapTextIntoLines text maxWidth fontSize fontFamily \<noteq> []"
    unfolding eq by (rule w)
qed

theorem wrap_empty_or_blank_witness:
  "wrapTextIntoLines [] 100 10 (ascii ''Arial'') = []
   \<and> trim (ascii ''  '') = [] \<and> wrapTextIntoLines (ascii ''  '') 100 10 (ascii ''Arial'') = []
   \<and> trim (ascii ''a'') \<noteq> [] \<and> wrapTextIntoLines (ascii ''a'') 100 10 (ascii ''Arial'') \<noteq> []"
proof -
  have b: "trim (ascii ''  '') = []" by (simp add: trim_def ascii_def isWhiteSpace_def)
  have a: "trim (ascii ''a'') \<noteq> []" by (simp add: trim_def ascii_def isWhiteSpace_def)
  from wrap_empty_or_blank [of 100 10 "ascii ''Arial''" "ascii ''  ''"]
       wrap_empty_or_blank [of 100 10 "ascii ''Arial''" "ascii ''a''"] a b
  show ?thesis by blast
qed


text \<open>
  Claim C6 as it is written says that every non-empty text gives at least one line. A text
  of one space is not empty and gives none.
\<close>

theorem wrap_blank_counterexample:
  "ascii '' '' \<noteq> [] \<and> wrapTextIntoLines (ascii '' '') 100 10 (ascii ''Arial'') = []"
  by (simp add: wrapTextIntoLines_def trim_def ascii_def isWhiteSpace_def)







text \<open>
  With a negative font size a longer line is estimated narrower, and a word that is over
  the budget alone shares its line with the next word.
\<close>

lemma negative_font_size_shares_line:
  "wrapTextIntoLines (ascii ''ab cdefghijklmnopqrstuvwxyz'') (-10) (-1) (ascii ''Arial'')
     = [ascii ''ab cdefghijklmnopqrstuvwxyz'']
   \<and> of_nat (length (ascii ''ab'')) * (-1) * multiplierFor (ascii ''Arial'') > (-10 :: rat)"
proof -
  have m: "multiplierFor (ascii ''Arial'') = 55 / 100"
    by (simp add: multiplierFor_def charWidthMultipliers_def ascii_def)
  have s: "split_on 0x20 (ascii ''ab cdefghijklmnopqrstuvwxyz'')
             = [ascii ''ab'', ascii ''cdefghijklmnopqrstuvwxyz'']"
    by (simp add: ascii_def)
  have t: "trim (ascii ''ab cdefghijklmnopqrstuvwxyz'') \<noteq> []"
    by (simp add: trim_def ascii_def isWhiteSpace_def)
  have j: "wrapStep (-10) (-1) (55 / 100) ([], ascii ''ab'') (ascii ''cdefghijklmnopqrstuvwxyz'')
             = ([], ascii ''ab'' @ ascii '' '' @ ascii ''cdefghijklmnopqrstuvwxyz'')"
    by (rule wrapStep_join) (simp_all add: ascii_def)
  have w: "wrapWords (-10) (-1) (55 / 100) [ascii ''ab'', ascii ''cdefghijklmnopqrstuvwxyz'']
             = [ascii ''ab cdefghijklmnopqrstuvwxyz'']"
    unfolding wrapWords_def wrapLoop_Cons wrapLoop_Nil wrapStep_empty j by (simp add: ascii_def)
  have "wrapTextIntoLines (ascii ''ab cdefghijklmnopqrstuvwxyz'') (-10) (-1) (ascii ''Arial'')
     = [ascii ''ab cdefghijklmnopqrstuvwxyz'']"
    unfolding wrapTextIntoLines_def Let_def s m w using t trim_Nil by auto
  moreover have "of_nat (length (ascii ''ab'')) * (-1) * multiplierFor (ascii ''Arial'') > (-10 :: rat)"
    unfolding m by (simp add: ascii_def)
  ultimately show ?thesis by blast
qed

text \<open>
  With a negative width budget the empty word between two spaces is over the budget, and it
  is no line of the output.
\<close>

lemma empty_word_has_no_line:
  "split_on 0x20 (ascii ''a  b'') = [ascii ''a'', [], ascii ''b'']
   \<and> of_nat (length ([] :: jsstring)) * 10 * multiplierFor (ascii ''Arial'') > (-1 :: rat)
   \<and> wrapTextIntoLines (ascii ''a  b'') (-1) 10 (ascii ''Arial'') = [ascii ''a'', ascii ''b'']"
proof -
  have m: "multiplierFor (ascii ''Arial'') = 55 / 100"
    by (simp add: multiplierFor_def charWidthMultipliers_def ascii_def)
  have s: "split_on 0x20 (ascii ''a  b'') = [ascii ''a'', [], ascii ''b'']"
    by (simp add: ascii_def)
  have t: "trim (ascii ''a  b'') \<noteq> []" "ascii ''a  b'' \<noteq> []"
    by (simp_all add: trim_def ascii_def isWhiteSpace_def)
  have a: "ascii ''a'' \<noteq> []" by (simp add: ascii_def)
  have j: "wrapStep (-1) 10 (55 / 100) ([], ascii ''a'') [] = ([] @ [ascii ''a''], [])"
    by (rule wrapStep_break) (simp_all add: ascii_def)
  have w: "wrapWords (-1) 10 (55 / 100) [ascii ''a'', [], ascii ''b''] = [ascii ''a'', ascii ''b'']"
    unfolding wrapWords_def wrapLoop_Cons wrapLoop_Nil wrapStep_empty j
    by (simp add: wrapStep_empty ascii_def)
  have "wrapTextIntoLines (ascii ''a  b'') (-1) 10 (ascii ''Arial'') = [ascii ''a'', ascii ''b'']"
    unfolding wrapTextIntoLines_def Let_def s m w using t by simp
  with s show ?thesis unfolding m by simp
qed

section \<open>Markup escaping\<close>

lemma escapeXml_Nil: "escapeXml [] = []"
  by (simp add: escapeXml_def)

lemma escapeXml_Cons:
  "escapeXml (c # cs) = (if c \<in> reserved then replacement c else [c]) @ escapeXml cs"
  by (simp add: escapeXml_def)

lemma escapeXml_plain: "set x \<inter> reserved = {} \<Longrightarrow> escapeXml x = x"
  by (induction x) (simp_all add: escapeXml_Nil escapeXml_Cons)

lemma replacement_reserved:
  "c \<in> reserved \<Longrightarrow> \<exists>r. replacement c = 0x26 # r \<and> r \<noteq> []"
  by (auto simp: reserved_def replacement_def ascii_def)

lemma length_escapeXml: "length x \<le> length (escapeXml x)"
proof (induction x)
  case Nil
  show ?case by (simp add: escapeXml_Nil)
next
  case (Cons c cs)
  show ?case
  proof (cases "c \<in> reserved")
    case True
    then obtain r where "replacement c = 0x26 # r" using replacement_reserved by blast
    with True Cons show ?thesis by (simp add: escapeXml_Cons)
  next
    case False
    with Cons show ?thesis by (simp add: escapeXml_Cons)
  qed
qed

lemma length_escapeXml_reserved:
  "set x \<inter> reserved \<noteq> {} \<Longrightarrow> length x < length (escapeXml x)"
proof (induction x)
  case Nil
  then show ?case by simp
next
  case (Cons c cs)
  show ?case
  proof (cases "c \<in> reserved")
    case True
    then obtain r where "replacement c = 0x26 # r" "r \<noteq> []"
      using replacement_reserved by blast
    then have "2 \<le> length (replacement c)" by (cases r) simp_all
    with True length_escapeXml [of cs] show ?thesis by (simp add: escapeXml_Cons)
  next
    case False
    with Cons show ?thesis by (simp add: escapeXml_Cons)
  qed
qed

lemma amp_in_escapeXml:
  "set x \<inter> reserved \<noteq> {} \<Longrightarrow> 0x26 \<in> set (escapeXml x)"
proof (induction x)
  case Nil
  then show ?case by simp
next
  case (Cons c cs)
  show ?case
  proof (cases "c \<in> reserved")
    case True
    then obtain r where "replacement c = 0x26 # r" using replacement_reserved by blast
    with True show ?thesis by (simp add: escapeXml_Cons)
  next
    case False
    with Cons show ?thesis by (simp add: escapeXml_Cons)
  qed
qed

lemma escapeXml_idem_iff:
  "escapeXml (escapeXml x) = escapeXml x \<longleftrightarrow> set x \<inter> reserved = {}"
proof
  assume idem: "escapeXml (escapeXml x) = escapeXml x"
  show "set x \<inter> reserved = {}"
  proof (rule ccontr)
    assume "set x \<inter> reserved \<noteq> {}"
    then have "0x26 \<in> set (escapeXml x)" by (rule amp_in_escapeXml)
    moreover have "(0x26 :: jschar) \<in> reserved" by (simp add: reserved_def)
    ultimately have "set (escapeXml x) \<inter> reserved \<noteq> {}" by blast
    then have "length (escapeXml x) < length (escapeXml (escapeXml x))"
      by (rule length_escapeXml_reserved)
    with idem show False by simp
  qed
next
  assume "set x \<inter> reserved = {}"
  then show "escapeXml (escapeXml x) = escapeXml x" by (simp add: escapeXml_plain)
qed

lemma unescapeXml_entity:
  "unescapeXml (ascii ''&lt;'' @ r) = 0x3C # unescapeXml r"
  "unescapeXml (ascii ''&gt;'' @ r) = 0x3E # unescapeXml r"
  "unescapeXml (ascii ''&amp;'' @ r) = 0x26 # unescapeXml r"
  "unescapeXml (ascii ''&apos;'' @ r) = 0x27 # unescapeXml r"
  "unescapeXml (ascii ''&quot;'' @ r) = 0x22 # unescapeXml r"
  by (simp_all add: ascii_def)

lemma unescapeXml_other: "c \<noteq> 0x26 \<Longrightarrow> unescapeXml (c # r) = c # unescapeXml r"
  by simp

lemma unescapeXml_escapeXml: "unescapeXml (escapeXml x) = x"
proof (induction x)
  case Nil
  show ?case by (simp add: escapeXml_Nil)
next
  case (Cons c cs)
  show ?case
  proof (cases "c \<in> reserved")
    case True
    then consider "c = 0x3C" | "c = 0x3E" | "c = 0x26" | "c = 0x27" | "c = 0x22"
      by (auto simp: reserved_def)
    then show ?thesis
    proof cases
      case 1
      have "replacement c = ascii ''&lt;''" by (simp add: replacement_def 1)
      with True Cons show ?thesis by (simp only: escapeXml_Cons if_True unescapeXml_entity 1)
    next
      case 2
      have "replacement c = ascii ''&gt;''" by (simp add: replacement_def 2)
      with True Cons show ?thesis by (simp only: escapeXml_Cons if_True unescapeXml_entity 2)
    next
      case 3
      have "replacement c = ascii ''&amp;''" by (simp add: replacement_def 3)
      with True Cons show ?thesis by (simp only: escapeXml_Cons if_True unescapeXml_entity 3)
    next
      case 4
      have "replacement c = ascii ''&apos;''" by (simp add: replacement_def 4)
      with True Cons show ?thesis by (simp only: escapeXml_Cons if_True unescapeXml_entity 4)
    next
      case 5
      have "replacement c = ascii ''&quot;''" by (simp add: replacement_def 5)
      with True Cons show ?thesis by (simp only: escapeXml_Cons if_True unescapeXml_entity 5)
    qed
  next
    case False
    then have "c \<noteq> 0x26" by (auto simp: reserved_def)
    from unescapeXml_other [OF this, of "escapeXml cs"] False Cons show ?thesis
      by (simp only: escapeXml_Cons if_False append_Cons append_Nil)
  qed
qed

lemma escapeXml_single: "escapeXml [c] = (if c \<in> reserved then replacement c else [c])"
  by (simp add: escapeXml_Cons escapeXml_Nil)

lemma escapeXml_changes_iff: "escapeXml [c] \<noteq> [c] \<longleftrightarrow> c \<in> reserved"
proof (cases "c \<in> reserved")
  case True
  then obtain r where "replacement c = 0x26 # r" "r \<noteq> []"
    using replacement_reserved by blast
  with True show ?thesis by (simp add: escapeXml_single)
next
  case False
  then show ?thesis by (simp add: escapeXml_single)
qed


text \<open>
  Claim C8, as the code has it: the function rewrites the five reserved characters, each to
  its entity, and no other character; escaping an escaped text gives the same text exactly
  when the original has none of the five; and for such an original the escaped text is the
  original, which decoding gives back.
\<close>

theorem escapeXml_five_reserved:
  "(escapeXml [c] \<noteq> [c] \<longleftrightarrow> c \<in> {0x3C, 0x3E, 0x26, 0x27, 0x22})
   \<and> escapeXml [0x3C] = ascii ''&lt;'' \<and> escapeXml [0x3E] = ascii ''&gt;''
   \<and> escapeXml [0x26] = ascii ''&amp;'' \<and> escapeXml [0x27] = ascii ''&apos;''
   \<and> escapeXml [0x22] = ascii ''&quot;''
   \<and> (escapeXml (escapeXml x) = escapeXml x \<longleftrightarrow> set x \<inter> {0x3C, 0x3E, 0x26, 0x27, 0x22} = {})
   \<and> (set x \<inter> {0x3C, 0x3E, 0x26, 0x27, 0x22} = {}
        \<longrightarrow> escapeXml x = x \<and> unescapeXml (escapeXml x) = x)"
proof -
  have five: "escapeXml [0x3C] = ascii ''&lt;''" "escapeXml [0x3E] = ascii ''&gt;''"
    "escapeXml [0x26] = ascii ''&amp;''" "escapeXml [0x27] = ascii ''&apos;''"
    "escapeXml [0x22] = ascii ''&quot;''"
    by (simp_all add: escapeXml_single reserved_def replacement_def)
  show ?thesis
    using escapeXml_changes_iff [of c] escapeXml_idem_iff [of x] escapeXml_plain [of x]
      unescapeXml_escapeXml [of x] five
    unfolding reserved_def by blast
qed


theorem escapeXml_five_reserved_witness:
  "set (ascii ''a b'') \<inter> {0x3C, 0x3E, 0x26, 0x27, 0x22} = {}
   \<and> escapeXml (ascii ''a b'') = ascii ''a b''
   \<and> unescapeXml (escapeXml (ascii ''a b'')) = ascii ''a b''
   \<and> escapeXml (escapeXml (ascii ''a b'')) = escapeXml (ascii ''a b'')"
proof -
  have "set (ascii ''a b'') \<inter> {0x3C, 0x3E, 0x26, 0x27, 0x22} = {}"
    by (simp add: ascii_def)
  with escapeXml_five_reserved [of "0x61" "ascii ''a b''"] show ?thesis by blast
qed


text \<open>
  Claim C8 as it is written says that escaping an escaped text adds nothing. The ampersand
  of an entity is escaped again.
\<close>

theorem escapeXml_double_escape_counterexample:
  "escapeXml (escapeXml (ascii ''<'')) = ascii ''&amp;lt;''
   \<and> escapeXml (escapeXml (ascii ''<'')) \<noteq> escapeXml (ascii ''<'')"
  by (simp add: escapeXml_def reserved_def replacement_def ascii_def)

section \<open>The image fetcher\<close>

lemma downloadImage_too_many:
  "m < k \<Longrightarrow> downloadImage w url m k = Inl (TooManyRedirects m)"
  by (simp add: downloadImage.simps)

lemma downloadImage_hop:
  assumes "k \<le> m" "urlValid w url" "request w k url = Response r"
    "redirectTarget r = Some location" "resolveUrl w location url = Some u"
  shows "downloadImage w url m k = downloadImage w (JStr u) m (k + 1)"
  using assms by (subst downloadImage.simps) simp

lemma downloadImage_terminal:
  assumes "k \<le> m" "terminal w k url = Some r"
  shows "downloadImage w url m k = finalResponse r"
  using assms
  by (subst downloadImage.simps)
     (auto simp: terminal_def split: if_splits netEvent.splits option.splits)

lemma downloadImage_followed:
  "followed w k url n = Some u \<Longrightarrow> downloadImage w url m k = downloadImage w u m (k + n)"
proof (induction n arbitrary: k url)
  case 0
  then show ?case by simp
next
  case (Suc n)
  show ?case
  proof (cases "m < k")
    case True
    then show ?thesis by (simp add: downloadImage_too_many)
  next
    case False
    from Suc.prems obtain r location v where hop:
      "urlValid w url" "request w k url = Response r" "redirectTarget r = Some location"
      "resolveUrl w location url = Some v" "followed w (k + 1) (JStr v) n = Some u"
      by (auto split: if_splits netEvent.splits option.splits)
    from False have "k \<le> m" by simp
    then have "downloadImage w url m k = downloadImage w (JStr v) m (k + 1)"
      using hop(1-4) by (rule downloadImage_hop)
    also have "\<dots> = downloadImage w u m (k + 1 + n)"
      using hop(5) by (rule Suc.IH)
    finally show ?thesis by simp
  qed
qed

lemma finalResponse_image:
  assumes "resStatusCode r = 200"
    and "\<forall>ct. resContentType r = Some ct \<longrightarrow> ct = [] \<or> startsWith ct (ascii ''image/'')"
    and "resBody r = Inr chunks" "chunks \<noteq> []"
  shows "finalResponse r = Inr (concat chunks)"
  using assms by (auto simp: finalResponse_def readBody_def split: option.splits)

lemma finalResponse_not_image:
  assumes "resStatusCode r = 200" "resContentType r = Some ct" "ct \<noteq> []"
    "\<not> startsWith ct (ascii ''image/'')"
  shows "finalResponse r = Inl (InvalidContentType ct)"
  using assms by (simp add: finalResponse_def)

text \<open>
  Claim C5, as the code has it, for a download with the default bound of 10 redirects:
  a chain of at most 10 redirects that ends in a response with status 200, a content type
  that is absent, empty or starts with \<^verbatim>\<open>image/\<close>, and a body of at least one chunk gives
  the bytes of the body; a chain of more than 10 redirects fails with the error of too many
  redirects; a chain of at most 10 redirects that ends in a response with status 200 and a
  non-empty content type that does not start with \<^verbatim>\<open>image/\<close> fails with the error of an
  invalid content type.
\<close>

theorem redirect_chains:
  "(followed w 0 url n = Some u \<and> n \<le> 10 \<and> terminal w n u = Some r
      \<and> resStatusCode r = 200
      \<and> (\<forall>ct. resContentType r = Some ct \<longrightarrow> ct = [] \<or> startsWith ct (ascii ''image/''))
      \<and> resBody r = Inr chunks \<and> chunks \<noteq> []
     \<longrightarrow> downloadImage w url 10 0 = Inr (concat chunks))
   \<and> (followed w 0 url n = Some u \<and> n > 10
     \<longrightarrow> downloadImage w url 10 0 = Inl (TooManyRedirects 10))
   \<and> (followed w 0 url n = Some u \<and> n \<le> 10 \<and> terminal w n u = Some r
      \<and> resStatusCode r = 200
      \<and> resContentType r = Some contentType \<and> contentType \<noteq> []
      \<and> \<not> startsWith contentType (ascii ''image/'')
     \<longrightarrow> downloadImage w url 10 0 = Inl (InvalidContentType contentType))"
proof (intro conjI impI)
  assume a: "followed w 0 url n = Some u \<and> n \<le> 10 \<and> terminal w n u = Some r
      \<and> resStatusCode r = 200
      \<and> (\<forall>ct. resContentType r = Some ct \<longrightarrow> ct = [] \<or> startsWith ct (ascii ''image/''))
      \<and> resBody r = Inr chunks \<and> chunks \<noteq> []"
  then have "downloadImage w url 10 0 = downloadImage w u 10 (0 + n)"
    by (intro downloadImage_followed) simp
  also have "\<dots> = finalResponse r"
    using a by (simp add: downloadImage_terminal)
  also have "\<dots> = Inr (concat chunks)"
    using a by (intro finalResponse_image) simp_all
  finally show "downloadImage w url 10 0 = Inr (concat chunks)" .
next
  assume a: "followed w 0 url n = Some u \<and> n > 10"
  then have "downloadImage w url 10 0 = downloadImage w u 10 (0 + n)"
    by (intro downloadImage_followed) simp
  also have "\<dots> = Inl (TooManyRedirects 10)"
    using a by (simp add: downloadImage_too_many)
  finally show "downloadImage w url 10 0 = Inl (TooManyRedirects 10)" .
next
  assume a: "followed w 0 url n = Some u \<and> n \<le> 10 \<and> terminal w n u = Some r
      \<and> resStatusCode r = 200
      \<and> resContentType r = Some contentType \<and> contentType \<noteq> []
      \<and> \<not> startsWith contentType (ascii ''image/'')"
  then have "downloadImage w url 10 0 = downloadImage w u 10 (0 + n)"
    by (intro downloadImage_followed) simp
  also have "\<dots> = finalResponse r"
    using a by (simp add: downloadImage_terminal)
  also have "\<dots> = Inl (InvalidContentType contentType)"
    using a by (intro finalResponse_not_image) simp_all
  finally show "downloadImage w url 10 0 = Inl (InvalidContentType contentType)" .
qed

lemma followed_redirecting:
  "k + n \<le> hops \<Longrightarrow> 0 < n \<Longrightarrow>
     followed (redirectingWeb hops ct) k url n = Some (JStr (ascii ''http://img/next''))"
proof (induction n arbitrary: k url)
  case 0
  then show ?case by simp
next
  case (Suc n)
  show ?case
  proof (cases n)
    case 0
    with Suc.prems show ?thesis by (simp add: redirectingWeb_def redirectTarget_def ascii_def)
  next
    case (Suc n')
    with Suc.prems Suc.IH [of "k + 1" "JStr (ascii ''http://img/next'')"] show ?thesis
      by (simp add: redirectingWeb_def redirectTarget_def ascii_def)
  qed
qed

lemma terminal_redirecting:
  "terminal (redirectingWeb hops ct) hops url
     = Some \<lparr>resStatusCode = 200, resStatusMessage = ascii ''OK'',
                       resLocation = None, resContentType = Some ct,
                       resBody = Inr [[0x89, 0x50]]\<rparr>"
  by (simp add: terminal_def redirectingWeb_def redirectTarget_def)

theorem redirect_chains_witness:
  "downloadImage (redirectingWeb 2 (ascii ''image/png'')) (JStr (ascii ''http://img/a'')) 10 0
     = Inr [0x89, 0x50]
   \<and> downloadImage (redirectingWeb 11 (ascii ''image/png'')) (JStr (ascii ''http://img/a'')) 10 0
     = Inl (TooManyRedirects 10)
   \<and> downloadImage (redirectingWeb 10 (ascii ''text/html'')) (JStr (ascii ''http://img/a'')) 10 0
     = Inl (InvalidContentType (ascii ''text/html''))"
proof -
  let ?next = "JStr (ascii ''http://img/next'')"
  let ?r = "\<lambda>ct. \<lparr>resStatusCode = 200, resStatusMessage = ascii ''OK'',
                       resLocation = None, resContentType = Some ct,
                       resBody = Inr [[0x89, 0x50 :: 8 word]]\<rparr>"
  have png: "startsWith (ascii ''image/png'') (ascii ''image/'')"
    by (simp add: startsWith_def ascii_def)
  have html: "\<not> startsWith (ascii ''text/html'') (ascii ''image/'')" "ascii ''text/html'' \<noteq> []"
    by (simp_all add: startsWith_def ascii_def)
  have 1: "downloadImage (redirectingWeb 2 (ascii ''image/png'')) (JStr (ascii ''http://img/a'')) 10 0
     = Inr (concat [[0x89, 0x50]])"
    using redirect_chains [of "redirectingWeb 2 (ascii ''image/png'')" "JStr (ascii ''http://img/a'')"
        2 ?next "?r (ascii ''image/png'')" "[[0x89, 0x50]]"]
      followed_redirecting [of 0 2 2 "ascii ''image/png''" "JStr (ascii ''http://img/a'')"]
      terminal_redirecting [of 2 "ascii ''image/png''" ?next] png
    by simp
  have 2: "downloadImage (redirectingWeb 11 (ascii ''image/png'')) (JStr (ascii ''http://img/a'')) 10 0
     = Inl (TooManyRedirects 10)"
    using redirect_chains [of "redirectingWeb 11 (ascii ''image/png'')" "JStr (ascii ''http://img/a'')"
        11 ?next]
      followed_redirecting [of 0 11 11 "ascii ''image/png''" "JStr (ascii ''http://img/a'')"]
    by simp
  have 3: "downloadImage (redirectingWeb 10 (ascii ''text/html'')) (JStr (ascii ''http://img/a'')) 10 0
     = Inl (InvalidContentType (ascii ''text/html''))"
    using redirect_chains [of "redirectingWeb 10 (ascii ''text/html'')" "JStr (ascii ''http://img/a'')"
        10 ?next "?r (ascii ''text/html'')" _ "ascii ''text/html''"]
      followed_redirecting [of 0 10 10 "ascii ''text/html''" "JStr (ascii ''http://img/a'')"]
      terminal_redirecting [of 10 "ascii ''text/html''" ?next] html
    by simp
  from 1 2 3 show ?thesis by simp
qed

text \<open>
  Claim C5 as it is written gives the invalid content type error for every terminal response
  whose content type is present and is not an image type. The status is checked first: a
  404 response that carries an HTML page fails with the HTTP error.
\<close>

theorem terminal_not_found_counterexample:
  "followed notFoundWeb 0 (JStr (ascii ''http://img/a'')) 0 = Some (JStr (ascii ''http://img/a''))
   \<and> terminal notFoundWeb 0 (JStr (ascii ''http://img/a'')) = Some notFoundPage
   \<and> resContentType notFoundPage = Some (ascii ''text/html'')
   \<and> \<not> startsWith (ascii ''text/html'') (ascii ''image/'')
   \<and> downloadImage notFoundWeb (JStr (ascii ''http://img/a'')) 10 0
       = Inl (HttpError 404 (ascii ''Not Found''))
   \<and> downloadImage notFoundWeb (JStr (ascii ''http://img/a'')) 10 0
       \<noteq> Inl (InvalidContentType (ascii ''text/html''))"
proof -
  have t: "terminal notFoundWeb 0 (JStr (ascii ''http://img/a'')) = Some notFoundPage"
    by (simp add: terminal_def notFoundWeb_def notFoundPage_def redirectTarget_def)
  have "downloadImage notFoundWeb (JStr (ascii ''http://img/a'')) 10 0 = finalResponse notFoundPage"
    by (rule downloadImage_terminal [OF _ t]) simp
  also have "\<dots> = Inl (HttpError 404 (ascii ''Not Found''))"
    by (simp add: finalResponse_def notFoundPage_def)
  finally have d: "downloadImage notFoundWeb (JStr (ascii ''http://img/a'')) 10 0
       = Inl (HttpError 404 (ascii ''Not Found''))" .
  have "\<not> startsWith (ascii ''text/html'') (ascii ''image/'')"
    by (simp add: startsWith_def ascii_def)
  moreover have "resContentType notFoundPage = Some (ascii ''text/html'')"
    by (simp add: notFoundPage_def)
  ultimately show ?thesis using t d by simp
qed

section \<open>The handler\<close>

lemma post_not_options: "ascii ''POST'' \<noteq> ascii ''OPTIONS''"
  by (simp add: ascii_def)

lemma handler_admitted:
  assumes "httpMethod ev = ascii ''POST''" "requestCount c now (clientIP ev) < RATE_LIMIT"
  shows "handler ext c now ev =
           \<lparr>reply = fst (handleAdmitted ext ev),
            cache = cacheSet (snd (cacheGet c now (clientIP ev))) now (clientIP ev)
                      (requestCount c now (clientIP ev) + 1),
            jobs = snd (handleAdmitted ext ev)\<rparr>"
  using assms post_not_options by (simp add: handler_def)

lemma handler_rejected:
  assumes "httpMethod ev = ascii ''POST''" "RATE_LIMIT \<le> requestCount c now (clientIP ev)"
  shows "statusCode (reply (handler ext c now ev)) = 429"
    and "cache (handler ext c now ev) = snd (cacheGet c now (clientIP ev))"
    and "jobs (handler ext c now ev) = 0"
  using assms post_not_options by (simp_all add: handler_def)

lemma finish_status: "statusCode (finish ext response) = 413 \<or> statusCode (finish ext response) = 200"
  by (simp add: finish_def Let_def)

lemma handleAdmitted_status:
  "statusCode (fst (handleAdmitted ext ev)) \<in> {200, 400, 413, 500}"
  using finish_status
  by (auto simp: handleAdmitted_def internalError_def badRequest_def
           split: sum.splits option.splits)

lemma handler_429_iff:
  assumes "httpMethod ev = ascii ''POST''"
  shows "statusCode (reply (handler ext c now ev)) = 429
           \<longleftrightarrow> RATE_LIMIT \<le> requestCount c now (clientIP ev)"
proof (cases "RATE_LIMIT \<le> requestCount c now (clientIP ev)")
  case True
  then show ?thesis using handler_rejected(1) [OF assms] by simp
next
  case False
  then have "reply (handler ext c now ev) = fst (handleAdmitted ext ev)"
    using handler_admitted [OF assms, of c now ext] by simp
  with False handleAdmitted_status [of ext ev] show ?thesis by auto
qed

lemma handleAdmitted_invalid:
  assumes "parseBody ext ev = Inr parsed" "parsed \<noteq> JNull" "parsed \<noteq> JUndefined"
    "validate ext (destructure parsed) = Some msg"
  shows "handleAdmitted ext ev = (badRequest msg, 0)"
  using assms by (simp add: handleAdmitted_def)

lemma handleAdmitted_valid:
  assumes "parseBody ext ev = Inr parsed" "parsed \<noteq> JNull" "parsed \<noteq> JUndefined"
    "validate ext (destructure parsed) = None" "responseFor ext (destructure parsed) = Inr response"
  shows "handleAdmitted ext ev
           = (finish ext response, length (the (elements (backgrounds (destructure parsed)))))"
  using assms by (simp add: handleAdmitted_def)

lemma handleAdmitted_unparsed:
  assumes "parseBody ext ev = Inl msg"
  shows "handleAdmitted ext ev = (internalError msg, 0)"
  using assms by (simp add: handleAdmitted_def)

lemma requestCount_empty: "requestCount emptyCache now ip = 0"
  by (simp add: requestCount_def cacheGet_def emptyCache_def)

lemma requestCount_cacheSet:
  "requestCount (cacheSet c t ip v) now ip = (if t + 60000 < now then 0 else v)"
  by (simp add: requestCount_def cacheGet_def cacheSet_def stdTTL_def)

lemma clientIP_postFrom: "ip \<noteq> [] \<Longrightarrow> clientIP (postFrom ip b) = ip"
  by (simp add: clientIP_def postFrom_def)

lemma httpMethod_postFrom: "httpMethod (postFrom ip b) = ascii ''POST''"
  by (simp add: postFrom_def)

lemma example_ip: "ascii ''203.0.113.7'' \<noteq> []"
  by (simp add: ascii_def)

lemma handler_cache:
  assumes "httpMethod ev = ascii ''POST''"
  shows "cache (handler ext c now ev) =
           (if RATE_LIMIT \<le> requestCount c now (clientIP ev)
            then snd (cacheGet c now (clientIP ev))
            else cacheSet (snd (cacheGet c now (clientIP ev))) now (clientIP ev)
                   (requestCount c now (clientIP ev) + 1))"
  using handler_rejected(2) [OF assms] handler_admitted [OF assms]
  by (cases "RATE_LIMIT \<le> requestCount c now (clientIP ev)") simp_all
lemma cache_post:
  "ip \<noteq> [] \<Longrightarrow>
   cache (handler ext c now (postFrom ip b)) =
     (if RATE_LIMIT \<le> requestCount c now ip then snd (cacheGet c now ip)
      else cacheSet (snd (cacheGet c now ip)) now ip (requestCount c now ip + 1))"
  by (simp add: handler_cache httpMethod_postFrom clientIP_postFrom)

lemma status_post:
  "ip \<noteq> [] \<Longrightarrow>
   statusCode (reply (handler ext c now (postFrom ip b))) = 429 \<longleftrightarrow> RATE_LIMIT \<le> requestCount c now ip"
  by (simp add: handler_429_iff httpMethod_postFrom clientIP_postFrom)

text \<open>
  What the code does with the expiry time: after an admitted request at time \<open>now\<close> the
  client's counter reads one more until 60 seconds after \<open>now\<close>, whatever the time of the
  client's first request was, and reads 0 later.
\<close>

lemma expiry_from_last_admitted:
  assumes "httpMethod ev = ascii ''POST''" and "requestCount c now (clientIP ev) < RATE_LIMIT"
  shows "requestCount (cache (handler ext c now ev)) later (clientIP ev)
           = (if now + 60000 < later then 0 else requestCount c now (clientIP ev) + 1)"
  using assms by (simp add: handler_cache requestCount_cacheSet)

lemma parseBody_example:
  "parseBody (exampleExtern n) (postFrom ip (Some (ascii ''{}''))) = Inr (JObj [])"
  "parseBody (exampleExtern n) (postFrom ip (Some twoSlidesText)) = Inr twoSlides"
  "parseBody (exampleExtern n) (postFrom ip (Some (ascii ''{''))) = Inl (ascii ''Unexpected token'')"
  "parseBody (exampleExtern n) (postFrom ip (Some twoToOneText)) = Inr twoToOne"
  by (simp_all add: parseBody_def exampleExtern_def postFrom_def twoSlidesText_def
      twoToOneText_def quoted_def ascii_def)

lemma validate_empty_object:
  "validate ext (destructure (JObj []))
     = Some (ascii ''backgrounds array is required and must not be empty'')"
  by (simp add: validate_def destructure_def validationError_def withDefault_def)

text \<open>
  Claim C10: for a POST request that passes the rate limit, the cache the handler leaves is
  the old one with the client's counter set to one more, whatever the body is and whatever
  the parsing, the validation and the rendering come to; read at the same time, the counter
  is one more than before.
\<close>

theorem quota_consumed_before_parsing:
  assumes "httpMethod ev = ascii ''POST''" and "requestCount c now (clientIP ev) < RATE_LIMIT"
  shows "cache (handler ext c now ev)
           = cacheSet (snd (cacheGet c now (clientIP ev))) now (clientIP ev)
               (requestCount c now (clientIP ev) + 1)
         \<and> requestCount (cache (handler ext c now ev)) now (clientIP ev)
             = requestCount c now (clientIP ev) + 1"
  using handler_admitted [OF assms, of ext] by (simp add: requestCount_cacheSet)

text \<open>A request answered with 400 and a request whose body does not parse, both counted.\<close>

theorem quota_consumed_before_parsing_witness:
  "statusCode (reply (handler (exampleExtern 0) emptyCache 0
       (postFrom (ascii ''203.0.113.7'') (Some (ascii ''{}''))))) = 400
   \<and> requestCount (cache (handler (exampleExtern 0) emptyCache 0
       (postFrom (ascii ''203.0.113.7'') (Some (ascii ''{}''))))) 0 (ascii ''203.0.113.7'') = 1
   \<and> statusCode (reply (handler (exampleExtern 0) emptyCache 0
       (postFrom (ascii ''203.0.113.7'') (Some (ascii ''{''))))) = 500
   \<and> requestCount (cache (handler (exampleExtern 0) emptyCache 0
       (postFrom (ascii ''203.0.113.7'') (Some (ascii ''{''))))) 0 (ascii ''203.0.113.7'') = 1"
proof -
  let ?ip = "ascii ''203.0.113.7''"
  let ?bad = "postFrom ?ip (Some (ascii ''{}''))"
  let ?junk = "postFrom ?ip (Some (ascii ''{''))"
  have ip: "clientIP ?bad = ?ip" "clientIP ?junk = ?ip"
    by (simp_all add: clientIP_postFrom example_ip)
  have fresh: "requestCount emptyCache 0 (clientIP ?bad) < RATE_LIMIT"
    "requestCount emptyCache 0 (clientIP ?junk) < RATE_LIMIT"
    by (simp_all add: requestCount_empty RATE_LIMIT_def)
  have "handleAdmitted (exampleExtern 0) ?bad
          = (badRequest (ascii ''backgrounds array is required and must not be empty''), 0)"
    by (rule handleAdmitted_invalid [OF parseBody_example(1) _ _ validate_empty_object]) simp_all
  then have s1: "statusCode (reply (handler (exampleExtern 0) emptyCache 0 ?bad)) = 400"
    using handler_admitted [OF httpMethod_postFrom fresh(1), of "exampleExtern 0"]
    by (simp add: badRequest_def)
  have "handleAdmitted (exampleExtern 0) ?junk = (internalError (ascii ''Unexpected token''), 0)"
    by (rule handleAdmitted_unparsed [OF parseBody_example(3)])
  then have s2: "statusCode (reply (handler (exampleExtern 0) emptyCache 0 ?junk)) = 500"
    using handler_admitted [OF httpMethod_postFrom fresh(2), of "exampleExtern 0"]
    by (simp add: internalError_def)
  from quota_consumed_before_parsing [OF httpMethod_postFrom fresh(1), of "exampleExtern 0", THEN conjunct2]
  have q1: "requestCount (cache (handler (exampleExtern 0) emptyCache 0 ?bad)) 0 ?ip = 1"
    by (simp add: ip requestCount_empty)
  from quota_consumed_before_parsing [OF httpMethod_postFrom fresh(2), of "exampleExtern 0", THEN conjunct2]
  have q2: "requestCount (cache (handler (exampleExtern 0) emptyCache 0 ?junk)) 0 ?ip = 1"
    by (simp add: ip requestCount_empty)
  from s1 s2 q1 q2 show ?thesis by simp
qed

subsection \<open>Validation\<close>

lemma validationError_backgrounds:
  "elements bs = None \<or> elements bs = Some [] \<Longrightarrow>
     validationError ext bs ss w h
       = Some (ascii ''backgrounds array is required and must not be empty'')"
  by (auto simp: validationError_def)

lemma validationError_slides:
  "elements bs = Some (b # bl) \<Longrightarrow> elements ss = None \<or> elements ss = Some [] \<Longrightarrow>
     validationError ext bs ss w h
       = Some (ascii ''slides array is required and must not be empty'')"
  by (auto simp: validationError_def)

lemma validationError_mismatch:
  "elements bs = Some (b # bl) \<Longrightarrow> elements ss = Some (x # sl) \<Longrightarrow> length bl \<noteq> length sl \<Longrightarrow>
     validationError ext bs ss w h
       = Some (ascii ''backgrounds and slides arrays must have the same length'')"
  by (simp add: validationError_def)

lemma validationError_dimensions:
  assumes "elements bs = Some (b # bl)" "elements ss = Some (x # sl)" "length bl = length sl"
    and "lessThan ext w 200 \<or> greaterThan ext w 4000 \<or> lessThan ext h 200 \<or> greaterThan ext h 4000"
  shows "validationError ext bs ss w h
       = Some (ascii ''Width and height must be between 200 and 4000 pixels'')"
  using assms by (auto simp: validationError_def)

lemma validationError_cases:
  "validationError ext bs ss w h \<in>
     {None,
      Some (ascii ''backgrounds array is required and must not be empty''),
      Some (ascii ''slides array is required and must not be empty''),
      Some (ascii ''backgrounds and slides arrays must have the same length''),
      Some (ascii ''Width and height must be between 200 and 4000 pixels'')}"
  by (simp add: validationError_def)

lemma validationError_None_iff:
  "validationError ext bs ss w h = None \<longleftrightarrow>
     (\<exists>bl sl. elements bs = Some bl \<and> elements ss = Some sl \<and> bl \<noteq> [] \<and> sl \<noteq> []
        \<and> length bl = length sl)
     \<and> \<not> lessThan ext w 200 \<and> \<not> greaterThan ext w 4000
     \<and> \<not> lessThan ext h 200 \<and> \<not> greaterThan ext h 4000"
  by (auto simp: validationError_def)

lemma lessThan_JNum: "lessThan ext (JNum n) k \<longleftrightarrow> n < k"
  by (simp add: lessThan_def toNumber_def)

lemma greaterThan_JNum: "greaterThan ext (JNum n) k \<longleftrightarrow> k < n"
  by (simp add: greaterThan_def toNumber_def)

lemma missing_backgrounds:
  "property parsed (ascii ''backgrounds'') = JUndefined \<Longrightarrow> backgrounds (destructure parsed) = JArr []"
  by (simp add: destructure_def withDefault_def)

lemma missing_slides:
  "property parsed (ascii ''slides'') = JUndefined \<Longrightarrow> slides (destructure parsed) = JArr []"
  by (simp add: destructure_def withDefault_def)

lemma validate_bad:
  assumes "backgrounds req = JArr [] \<or> slides req = JArr []
     \<or> (\<exists>bl sl. backgrounds req = JArr bl \<and> slides req = JArr sl \<and> length bl \<noteq> length sl)
     \<or> (\<exists>n. width req = JNum n \<and> (n < 200 \<or> 4000 < n))
     \<or> (\<exists>n. height req = JNum n \<and> (n < 200 \<or> 4000 < n))"
  shows "validate ext req \<noteq> None"
proof
  assume "validate ext req = None"
  then obtain bl sl where ok: "elements (backgrounds req) = Some bl" "elements (slides req) = Some sl"
      "bl \<noteq> []" "sl \<noteq> []" "length bl = length sl"
      "\<not> lessThan ext (width req) 200" "\<not> greaterThan ext (width req) 4000"
      "\<not> lessThan ext (height req) 200" "\<not> greaterThan ext (height req) 4000"
    unfolding validate_def validationError_None_iff by blast
  from assms ok show False
    by (auto simp: lessThan_JNum greaterThan_JNum)
qed

lemma validate_mismatch:
  assumes "backgrounds req = JArr bl" "slides req = JArr sl" "bl \<noteq> []" "sl \<noteq> []"
    "length bl \<noteq> length sl"
  shows "validate ext req = Some (ascii ''backgrounds and slides arrays must have the same length'')"
  using assms by (simp add: validate_def validationError_def)

text \<open>
  Claim C2: a POST request that passes the rate limit and whose body parses to a value other
  than \<^verbatim>\<open>null\<close> is answered with status 400 and an error message, and no
  \<^verbatim>\<open>generateSlide\<close> call is made, when \<^verbatim>\<open>backgrounds\<close> is missing or empty,
  \<^verbatim>\<open>slides\<close> is missing or empty, the two arrays differ in length, or the width or the
  height is a number below 200 or above 4000. When both arrays are non-empty and differ in
  length the message is the one that names the length mismatch.
\<close>

theorem validation_rejects_before_rendering:
  assumes "httpMethod ev = ascii ''POST''" and "requestCount c now (clientIP ev) < RATE_LIMIT"
    and "parseBody ext ev = Inr parsed" and "parsed \<noteq> JNull" and "parsed \<noteq> JUndefined"
    and "property parsed (ascii ''backgrounds'') = JUndefined
         \<or> backgrounds (destructure parsed) = JArr []
         \<or> property parsed (ascii ''slides'') = JUndefined
         \<or> slides (destructure parsed) = JArr []
         \<or> (\<exists>bl sl. backgrounds (destructure parsed) = JArr bl
               \<and> slides (destructure parsed) = JArr sl \<and> length bl \<noteq> length sl)
         \<or> (\<exists>n. width (destructure parsed) = JNum n \<and> (n < 200 \<or> 4000 < n))
         \<or> (\<exists>n. height (destructure parsed) = JNum n \<and> (n < 200 \<or> 4000 < n))"
  shows "statusCode (reply (handler ext c now ev)) = 400
         \<and> (\<exists>msg. replyBody (reply (handler ext c now ev)) = ErrorBody msg)
         \<and> jobs (handler ext c now ev) = 0
         \<and> (\<forall>bl sl. backgrounds (destructure parsed) = JArr bl
               \<and> slides (destructure parsed) = JArr sl
               \<and> bl \<noteq> [] \<and> sl \<noteq> [] \<and> length bl \<noteq> length sl
             \<longrightarrow> replyBody (reply (handler ext c now ev))
                   = ErrorBody (ascii ''backgrounds and slides arrays must have the same length''))"
proof -
  have "validate ext (destructure parsed) \<noteq> None"
    using assms(6) missing_backgrounds [of parsed] missing_slides [of parsed]
    by (intro validate_bad) blast
  then obtain msg where msg: "validate ext (destructure parsed) = Some msg" by blast
  have "handleAdmitted ext ev = (badRequest msg, 0)"
    using assms(3,4,5) msg by (rule handleAdmitted_invalid)
  then have out: "reply (handler ext c now ev) = badRequest msg" "jobs (handler ext c now ev) = 0"
    using handler_admitted [OF assms(1,2), of ext] by simp_all
  have "replyBody (reply (handler ext c now ev))
          = ErrorBody (ascii ''backgrounds and slides arrays must have the same length'')"
    if "backgrounds (destructure parsed) = JArr bl" "slides (destructure parsed) = JArr sl"
       "bl \<noteq> []" "sl \<noteq> []" "length bl \<noteq> length sl" for bl sl
    using validate_mismatch [OF that, of ext] msg out(1) by (simp add: badRequest_def)
  with out show ?thesis by (simp add: badRequest_def)
qed

lemma destructure_twoToOne:
  "backgrounds (destructure twoToOne) = JArr [JStr (ascii ''http://img/a''), JStr (ascii ''http://img/b'')]"
  "slides (destructure twoToOne) = JArr [JObj []]"
  by (simp_all add: destructure_def twoToOne_def withDefault_def ascii_def)

theorem validation_rejects_before_rendering_witness:
  "statusCode (reply (handler (exampleExtern 0) emptyCache 0
       (postFrom (ascii ''203.0.113.7'') (Some twoToOneText)))) = 400
   \<and> jobs (handler (exampleExtern 0) emptyCache 0
       (postFrom (ascii ''203.0.113.7'') (Some twoToOneText))) = 0
   \<and> replyBody (reply (handler (exampleExtern 0) emptyCache 0
       (postFrom (ascii ''203.0.113.7'') (Some twoToOneText))))
       = ErrorBody (ascii ''backgrounds and slides arrays must have the same length'')"
proof -
  let ?ev = "postFrom (ascii ''203.0.113.7'') (Some twoToOneText)"
  have fresh: "requestCount emptyCache 0 (clientIP ?ev) < RATE_LIMIT"
    by (simp add: requestCount_empty RATE_LIMIT_def)
  have nn: "twoToOne \<noteq> JNull" "twoToOne \<noteq> JUndefined" by (simp_all add: twoToOne_def)
  have bad: "property twoToOne (ascii ''backgrounds'') = JUndefined
         \<or> backgrounds (destructure twoToOne) = JArr []
         \<or> property twoToOne (ascii ''slides'') = JUndefined
         \<or> slides (destructure twoToOne) = JArr []
         \<or> (\<exists>bl sl. backgrounds (destructure twoToOne) = JArr bl
               \<and> slides (destructure twoToOne) = JArr sl \<and> length bl \<noteq> length sl)
         \<or> (\<exists>n. width (destructure twoToOne) = JNum n \<and> (n < 200 \<or> 4000 < n))
         \<or> (\<exists>n. height (destructure twoToOne) = JNum n \<and> (n < 200 \<or> 4000 < n))"
    by (simp add: destructure_twoToOne)
  from validation_rejects_before_rendering
         [OF httpMethod_postFrom fresh parseBody_example(4) nn bad]
  show ?thesis by (simp add: destructure_twoToOne)
qed

subsection \<open>The batch\<close>

lemma length_generateAll [simp]:
  "length (generateAll ext bs ss w h) = length bs"
  by (simp add: generateAll_def enumerate_eq_zip)


lemma filename_generateSlide [simp]:
  "filename (generateSlide ext b s w h i) = slideFilename i"
  by (simp add: generateSlide_def split: sum.splits)











subsection \<open>The size of the response\<close>

lemma finish_too_large:
  assumes "6000000 < serializedSize ext response"
  shows "statusCode (finish ext response) = 413"
    and "replyBody (finish ext response)
           = TooLargeBody (tooLargeMessage (serializedSize ext response))
               (if driveUrls response \<noteq> None then suggestReturnUrls else suggestReduce)
               (stats response)"
  using assms by (simp_all add: finish_def Let_def)

lemma finish_whole:
  assumes "serializedSize ext response \<le> 6000000"
  shows "finish ext response
           = \<lparr>statusCode = 200, replyHeaders = jsonHeaders, replyBody = SuccessBody response\<rparr>"
  using assms by (simp add: finish_def Let_def)

lemma suggestions_not_empty: "suggestReturnUrls \<noteq> []" "suggestReduce \<noteq> []"
  by (simp_all add: suggestReturnUrls_def suggestReduce_def ascii_def)

lemma tooLargeMessage_not_empty: "tooLargeMessage n \<noteq> []"
  by (simp add: tooLargeMessage_def ascii_def)

text \<open>
  Claim C9: when the handler has built the response object of a batch, it answers 413 with an
  error text and a suggestion text if the object serializes to more than 6,000,000 bytes,
  and answers 200 with the whole object otherwise.
\<close>

theorem oversized_response_is_413:
  assumes "httpMethod ev = ascii ''POST''" and "requestCount c now (clientIP ev) < RATE_LIMIT"
    and "parseBody ext ev = Inr parsed" and "parsed \<noteq> JNull" and "parsed \<noteq> JUndefined"
    and "validate ext (destructure parsed) = None"
    and "responseFor ext (destructure parsed) = Inr response"
  shows "(6000000 < serializedSize ext response \<longrightarrow>
            statusCode (reply (handler ext c now ev)) = 413
            \<and> (\<exists>err hint st. replyBody (reply (handler ext c now ev)) = TooLargeBody err hint st
                  \<and> err \<noteq> [] \<and> hint \<noteq> []))
         \<and> (serializedSize ext response \<le> 6000000 \<longrightarrow>
            statusCode (reply (handler ext c now ev)) = 200
            \<and> replyBody (reply (handler ext c now ev)) = SuccessBody response)"
proof -
  have "handleAdmitted ext ev
          = (finish ext response, length (the (elements (backgrounds (destructure parsed)))))"
    using assms(3-7) by (rule handleAdmitted_valid)
  then have out: "reply (handler ext c now ev) = finish ext response"
    using handler_admitted [OF assms(1,2), of ext] by simp
  show ?thesis
  proof (intro conjI impI)
    assume big: "6000000 < serializedSize ext response"
    show "statusCode (reply (handler ext c now ev)) = 413"
      unfolding out by (rule finish_too_large(1) [OF big])
    show "\<exists>err hint st. replyBody (reply (handler ext c now ev)) = TooLargeBody err hint st
                  \<and> err \<noteq> [] \<and> hint \<noteq> []"
      unfolding out finish_too_large(2) [OF big]
      using suggestions_not_empty tooLargeMessage_not_empty by auto
  next
    assume small: "serializedSize ext response \<le> 6000000"
    show "statusCode (reply (handler ext c now ev)) = 200"
      unfolding out finish_whole [OF small] by simp
    show "replyBody (reply (handler ext c now ev)) = SuccessBody response"
      unfolding out finish_whole [OF small] by simp
  qed
qed

lemma destructure_twoSlides:
  "backgrounds (destructure twoSlides) = JArr [JStr (ascii ''http://img/a''), JStr (ascii ''http://img/b'')]"
  "slides (destructure twoSlides) = JArr [JObj [], JObj []]"
  "width (destructure twoSlides) = JNum 1080"
  "height (destructure twoSlides) = JNum 1080"
  "shouldUploadToDrive (destructure twoSlides) = JBool False"
  by (simp_all add: destructure_def twoSlides_def withDefault_def ascii_def)

lemma validate_twoSlides: "validate ext (destructure twoSlides) = None"
  by (simp add: validate_def validationError_def destructure_twoSlides lessThan_JNum
      greaterThan_JNum)

lemma responseFor_no_upload:
  "\<not> truthy (shouldUploadToDrive req) \<Longrightarrow> \<exists>response. responseFor ext req = Inr response"
  by (simp add: responseFor_def buildResponse_def Let_def)

theorem oversized_response_is_413_witness:
  "statusCode (reply (handler (exampleExtern 6000001) emptyCache 0
       (postFrom (ascii ''203.0.113.7'') (Some twoSlidesText)))) = 413
   \<and> statusCode (reply (handler (exampleExtern 6000000) emptyCache 0
       (postFrom (ascii ''203.0.113.7'') (Some twoSlidesText)))) = 200"
proof -
  let ?ev = "postFrom (ascii ''203.0.113.7'') (Some twoSlidesText)"
  have fresh: "requestCount emptyCache 0 (clientIP ?ev) < RATE_LIMIT"
    by (simp add: requestCount_empty RATE_LIMIT_def)
  have nn: "twoSlides \<noteq> JNull" "twoSlides \<noteq> JUndefined" by (simp_all add: twoSlides_def)
  have size: "serializedSize (exampleExtern n) response = n" for n response
    by (simp add: exampleExtern_def)
  obtain big where big: "responseFor (exampleExtern 6000001) (destructure twoSlides) = Inr big"
    using responseFor_no_upload [of "destructure twoSlides"] by (auto simp: destructure_twoSlides)
  obtain small where small: "responseFor (exampleExtern 6000000) (destructure twoSlides) = Inr small"
    using responseFor_no_upload [of "destructure twoSlides"] by (auto simp: destructure_twoSlides)
  from oversized_response_is_413
         [OF httpMethod_postFrom fresh parseBody_example(2) nn validate_twoSlides big]
  have 1: "statusCode (reply (handler (exampleExtern 6000001) emptyCache 0 ?ev)) = 413"
    by (simp add: size)
  from oversized_response_is_413
         [OF httpMethod_postFrom fresh parseBody_example(2) nn validate_twoSlides small]
  have 2: "statusCode (reply (handler (exampleExtern 6000000) emptyCache 0 ?ev)) = 200"
    by (simp add: size)
  from 1 2 show ?thesis by simp
qed

text \<open>The counts of a response add up to the number of slides.\<close>

lemma buildResponse_stats:
  assumes "buildResponse ext results n w h upload token folder urls = Inr response"
  shows "stats response =
           \<lparr>totalSlides = n, successful = length (filter success results),
            failed = length (filter (\<lambda>r. \<not> success r) results),
            generationTimeMs = elapsedMs ext, dimensions = (w, h)\<rparr>"
proof (cases "if truthy upload \<and> truthy token \<and> length (filter success results) > 0
              then googleapis ext else None")
  case None
  with assms show ?thesis
    unfolding buildResponse_def Let_def by (simp del: length_greater_0_conv) (erule subst, simp)
next
  case (Some msg)
  with assms show ?thesis
    unfolding buildResponse_def Let_def by simp
qed

lemma responseFor_stats:
  assumes "responseFor ext req = Inr response"
  shows "totalSlides (stats response) = length (the (elements (backgrounds req)))"
    and "successful (stats response) + failed (stats response) = totalSlides (stats response)"
  using buildResponse_stats [OF assms [unfolded responseFor_def]]
  by (simp_all add: sum_length_filter_compl slideResults_def)

subsection \<open>The rate limit over time\<close>

text \<open>
  The part of the rate limit that the code has: from a counter that reads 0, eleven requests
  of one client that all arrive within 60 seconds of the first get ten admissions and then a
  429; and a request that arrives more than 60 seconds after an admitted request of the
  same client is admitted.
\<close>

lemma ten_admitted_then_rejected:
  assumes "ip \<noteq> []" and "requestCount c t1 ip = 0"
    and "t1 \<le> t2" "t2 \<le> t3" "t3 \<le> t4" "t4 \<le> t5" "t5 \<le> t6" "t6 \<le> t7" "t7 \<le> t8" "t8 \<le> t9"
      "t9 \<le> t10" "t10 \<le> t11" "t11 \<le> t1 + 60000"
  shows "map (\<lambda>r. statusCode r = 429)
     (serve ext c
        [(t1, postFrom ip b1), (t2, postFrom ip b2), (t3, postFrom ip b3), (t4, postFrom ip b4),
         (t5, postFrom ip b5), (t6, postFrom ip b6), (t7, postFrom ip b7), (t8, postFrom ip b8),
         (t9, postFrom ip b9), (t10, postFrom ip b10), (t11, postFrom ip b11)])
   = [False, False, False, False, False, False, False, False, False, False, True]"
  using assms(2-)
  by (simp add: cache_post [OF assms(1)] status_post [OF assms(1)]
        requestCount_cacheSet RATE_LIMIT_def)

lemma admitted_again_after_quiet_minute:
  assumes "httpMethod ev = ascii ''POST''" and "requestCount c now (clientIP ev) < RATE_LIMIT"
    and "httpMethod ev' = ascii ''POST''" and "clientIP ev' = clientIP ev"
    and "now + 60000 < later"
  shows "statusCode (reply (handler ext' (cache (handler ext c now ev)) later ev')) \<noteq> 429"
  using assms by (simp add: handler_429_iff expiry_from_last_admitted RATE_LIMIT_def)

text \<open>
  Claim C3 says that the client's next request is admitted again once the 60-second window
  of its first request has elapsed. Here a client sends ten requests in the first 54
  seconds, all admitted, and one more at 61 seconds: it is answered 429, because the entry
  expires 60 seconds after the tenth request, not after the first.
\<close>

theorem eleventh_request_after_first_window:
  "map (\<lambda>r. statusCode r = 429)
     (serve ext emptyCache
        [(0, postFrom (ascii ''203.0.113.7'') b), (6000, postFrom (ascii ''203.0.113.7'') b),
         (12000, postFrom (ascii ''203.0.113.7'') b), (18000, postFrom (ascii ''203.0.113.7'') b),
         (24000, postFrom (ascii ''203.0.113.7'') b), (30000, postFrom (ascii ''203.0.113.7'') b),
         (36000, postFrom (ascii ''203.0.113.7'') b), (42000, postFrom (ascii ''203.0.113.7'') b),
         (48000, postFrom (ascii ''203.0.113.7'') b), (54000, postFrom (ascii ''203.0.113.7'') b),
         (61000, postFrom (ascii ''203.0.113.7'') b)])
   = [False, False, False, False, False, False, False, False, False, False, True]"
  by (simp add: cache_post [OF example_ip] status_post [OF example_ip]
        requestCount_empty requestCount_cacheSet RATE_LIMIT_def)

text \<open>
  Claim C4 says that the counter resets 60 seconds after the client's first request of the
  window, whenever the later requests arrive. After one request at time 0 the counter reads
  0 at 60.001 seconds; after requests at 0 and at 30 seconds it reads 2 at 60.001 seconds
  and 0 only after 90 seconds. A client that sends one request every 50 seconds is answered
  429 at its eleventh request, 500 seconds after the first.
\<close>

theorem expiry_restarts_with_every_request:
  "requestCount (cacheAfter ext emptyCache [(0, postFrom (ascii ''203.0.113.7'') b)])
     60001 (ascii ''203.0.113.7'') = 0
   \<and> requestCount (cacheAfter ext emptyCache
        [(0, postFrom (ascii ''203.0.113.7'') b), (30000, postFrom (ascii ''203.0.113.7'') b)])
     60001 (ascii ''203.0.113.7'') = 2
   \<and> requestCount (cacheAfter ext emptyCache
        [(0, postFrom (ascii ''203.0.113.7'') b), (30000, postFrom (ascii ''203.0.113.7'') b)])
     90001 (ascii ''203.0.113.7'') = 0
   \<and> map (\<lambda>r. statusCode r = 429)
       (serve ext emptyCache
        [(0, postFrom (ascii ''203.0.113.7'') b), (50000, postFrom (ascii ''203.0.113.7'') b),
         (100000, postFrom (ascii ''203.0.113.7'') b), (150000, postFrom (ascii ''203.0.113.7'') b),
         (200000, postFrom (ascii ''203.0.113.7'') b), (250000, postFrom (ascii ''203.0.113.7'') b),
         (300000, postFrom (ascii ''203.0.113.7'') b), (350000, postFrom (ascii ''203.0.113.7'') b),
         (400000, postFrom (ascii ''203.0.113.7'') b), (450000, postFrom (ascii ''203.0.113.7'') b),
         (500000, postFrom (ascii ''203.0.113.7'') b)])
     = [False, False, False, False, False, False, False, False, False, False, True]"
  by (simp add: cache_post [OF example_ip] status_post [OF example_ip]
        requestCount_empty requestCount_cacheSet RATE_LIMIT_def)

end
